theory Spec2Isabelle
  imports Main
begin

section \<open>easygit sync: a shallow embedding of src/commands/sync.js\<close>

text \<open>
  The embedding follows \<^verbatim>\<open>SyncCommand\<close> of src/commands/sync.js and the methods of
  \<^verbatim>\<open>GitRepository\<close> (src/core/git-repository.js) that it calls. The libraries below
  them (simple-git, inquirer, fs, the configuration manager, the clock) are an
  environment that answers each call with a value or an error.
\<close>

subsection \<open>Classification\<close>

text \<open>
  The strings \<^verbatim>\<open>'new-branch'\<close>, \<^verbatim>\<open>'up-to-date'\<close>, \<^verbatim>\<open>'ahead'\<close>, \<^verbatim>\<open>'behind'\<close>,
  \<^verbatim>\<open>'diverged'\<close> and \<^verbatim>\<open>'unknown'\<close> returned by \<^verbatim>\<open>determineSyncStatus\<close>.
\<close>

datatype sync_status = NewBranch | UpToDate | Ahead | Behind | Diverged | Unknown

text \<open>
  \<^verbatim>\<open>determineSyncStatus(ahead, behind, hasRemoteBranch)\<close>, sync.js lines 162-184:
  five guarded returns in the order of the source, then \<^verbatim>\<open>return 'unknown'\<close>.
  The counts are JavaScript numbers holding integers.
\<close>

definition determineSyncStatus :: "int \<Rightarrow> int \<Rightarrow> bool \<Rightarrow> sync_status" where
  "determineSyncStatus ahead behind hasRemoteBranch =
     (if \<not> hasRemoteBranch then NewBranch
      else if ahead = 0 \<and> behind = 0 then UpToDate
      else if ahead > 0 \<and> behind = 0 then Ahead
      else if ahead = 0 \<and> behind > 0 then Behind
      else if ahead > 0 \<and> behind > 0 then Diverged
      else Unknown)"

subsection \<open>Strings and errors\<close>

text \<open>
  A thrown JavaScript value: the constructor that made it and its \<^verbatim>\<open>message\<close>.
\<close>

datatype error = Error string | TypeError string | ReferenceError string | SyntaxError string

fun message :: "error \<Rightarrow> string" where
  "message (Error m) = m"
| "message (TypeError m) = m"
| "message (ReferenceError m) = m"
| "message (SyntaxError m) = m"

text \<open>\<^verbatim>\<open>String.prototype.startsWith\<close> and \<^verbatim>\<open>String.prototype.includes\<close>.\<close>

fun startsWith :: "string \<Rightarrow> string \<Rightarrow> bool" where
  "startsWith s [] = True"
| "startsWith [] (p # ps) = False"
| "startsWith (c # cs) (p # ps) = (c = p \<and> startsWith cs ps)"

fun str_includes :: "string \<Rightarrow> string \<Rightarrow> bool" where
  "str_includes [] p = (p = [])"
| "str_includes (c # cs) p = (startsWith (c # cs) p \<or> str_includes cs p)"

text \<open>\<^verbatim>\<open>Array.prototype.join(sep)\<close> on an array of strings.\<close>

fun join :: "string \<Rightarrow> string list \<Rightarrow> string" where
  "join sep [] = []"
| "join sep [x] = x"
| "join sep (x # y # ys) = x @ sep @ join sep (y # ys)"

text \<open>
  The decimal text of a number, as a template literal or \<^verbatim>\<open>toString()\<close> prints an
  integer.
\<close>

fun natToString :: "nat \<Rightarrow> string" where
  "natToString n =
     (if n < 10 then [''0123456789'' ! n]
      else natToString (n div 10) @ [''0123456789'' ! (n mod 10)])"

declare natToString.simps [simp del]

definition numberToString :: "int \<Rightarrow> string" where
  "numberToString n =
     (if n < 0 then ''-'' @ natToString (nat (- n)) else natToString (nat n))"

text \<open>\<^verbatim>\<open>n || 0\<close> for a number \<^verbatim>\<open>n\<close>: zero is falsy and is replaced by zero.\<close>

definition or0 :: "int \<Rightarrow> int" where
  "or0 n = (if n = 0 then 0 else n)"

subsection \<open>Data\<close>

text \<open>
  The options object that commander passes to \<^verbatim>\<open>execute\<close> (sync.js lines 19-26).
  \<^verbatim>\<open>--remote\<close> has the default \<^verbatim>\<open>'origin'\<close>, so it is always a string;
  \<^verbatim>\<open>--branch\<close> is absent unless given.
\<close>

record sync_options =
  opt_remote :: string
  opt_branch :: "string option"
  opt_rebase :: bool
  opt_merge :: bool
  opt_force :: bool
  opt_forceWithLease :: bool
  opt_dryRun :: bool
  opt_allowUnrelated :: bool

text \<open>The fields of simple-git's status result that sync.js reads.\<close>

record status_result =
  st_current :: string
  st_ahead :: int
  st_behind :: int
  st_isClean :: bool

text \<open>The object returned by \<^verbatim>\<open>analyzeBranchState\<close> (sync.js lines 147-156).\<close>

record branch_state =
  bs_currentBranch :: string
  bs_remote :: string
  bs_remoteBranch :: string
  bs_hasRemoteBranch :: bool
  bs_ahead :: int
  bs_behind :: int
  bs_hasUncommittedChanges :: bool
  bs_status :: sync_status

text \<open>The object queued by \<^verbatim>\<open>queueSyncOperation\<close> (sync.js lines 112-118).\<close>

record queued_operation =
  q_timestamp :: string
  q_workingDir :: string
  q_branch :: string
  q_options :: sync_options
  q_id :: string

text \<open>
  What \<^verbatim>\<open>JSON.parse\<close> can give for the queue file: an array (of queued
  operations), or a value that is not an array and so has no \<^verbatim>\<open>push\<close> method.
  The file itself is absent, or holds text that is not JSON, or holds a JSON value.
\<close>

datatype json = JArray "queued_operation list" | JNotArray

datatype file_content = NotJSON | JSONText json

text \<open>The value chosen at the prompt of \<^verbatim>\<open>handleDiverged\<close> (sync.js lines 335-356).\<close>

datatype divergence_choice = ChooseRebase | ChooseMerge | ChooseForce | ChooseCancel

subsection \<open>The environment and the world\<close>

text \<open>
  Every call that leaves sync.js and git-repository.js is recorded, with its
  arguments, and console output is recorded with it, in the order of execution.
  Colours and the leading pictograms of the messages are left out.
\<close>

datatype call =
    GitStatus
  | GitBranch "string list"
  | GitGetRemotes
  | GitRaw "string list"
  | GitFetch string
  | GitPush "string list"
  | GitRebase "string list"
  | GitMerge "string list"
  | GitStash "string list"
  | PromptStrategy
  | PromptConfirmed
  | ConfigGetSyncStrategy
  | FsMkdir
  | FsReadFile
  | FsWriteFile json

datatype event = Call call | ConsoleLog string | ConsoleWarn string

text \<open>
  The answers of the environment in one invocation. \<^verbatim>\<open>git.status()\<close> answers
  \<open>status_local\<close> until a fetch has succeeded in this invocation and
  \<open>status_fetched\<close> afterwards: the two may differ, since the ahead and behind
  counts are relative to the last fetch.
\<close>

record env =
  hasGitRepo :: bool
  isInitialized :: bool
  workingDir :: string
  status_local :: "error + status_result"
  status_fetched :: "error + status_result"
  branch_all :: "error + string list"
  remote_names :: "error + string list"
  raw_result :: "error + unit"
  fetch_result :: "error + unit"
  push_result :: "error + unit"
  rebase_result :: "error + unit"
  merge_result :: "error + unit"
  stash_push_result :: "error + unit"
  stash_pop_result :: "error + unit"
  prompt_strategy :: "error + divergence_choice"
  prompt_confirmed :: "error + bool"
  config_syncStrategy :: "error + string"
  mkdir_result :: "error + unit"
  readFile_error :: "error option"
  writeFile_result :: "error + unit"
  date_toISOString :: string
  date_now :: nat

record world =
  trace :: "event list"
  fetched :: bool
  queueFile :: "file_content option"

subsection \<open>Control flow: return, throw, sequencing, try/catch, try/finally\<close>

type_synonym 'a io = "world \<Rightarrow> (error + 'a) \<times> world"

definition io_return :: "'a \<Rightarrow> 'a io" where
  "io_return x w = (Inr x, w)"

definition io_throw :: "error \<Rightarrow> 'a io" where
  "io_throw e w = (Inl e, w)"

definition io_bind :: "'a io \<Rightarrow> ('a \<Rightarrow> 'b io) \<Rightarrow> 'b io" where
  "io_bind m f w = (case m w of (Inl e, w') \<Rightarrow> (Inl e, w') | (Inr x, w') \<Rightarrow> f x w')"

definition io_then :: "unit io \<Rightarrow> 'b io \<Rightarrow> 'b io" where
  "io_then m k = io_bind m (\<lambda>_. k)"

text \<open>\<^verbatim>\<open>try { m } catch (error) { h error }\<close>\<close>

definition io_catch :: "'a io \<Rightarrow> (error \<Rightarrow> 'a io) \<Rightarrow> 'a io" where
  "io_catch m h w = (case m w of (Inl e, w') \<Rightarrow> h e w' | (Inr x, w') \<Rightarrow> (Inr x, w'))"

text \<open>
  \<^verbatim>\<open>try { m } finally { fin }\<close>: the finally block runs on every exit of \<open>m\<close>;
  the outcome is that of \<open>m\<close> unless the finally block itself throws.
\<close>

definition io_finally :: "'a io \<Rightarrow> unit io \<Rightarrow> 'a io" where
  "io_finally m fin w =
     (case m w of (r, w') \<Rightarrow>
        (case fin w' of (Inl e, w'') \<Rightarrow> (Inl e, w'') | (Inr _, w'') \<Rightarrow> (r, w'')))"

definition emit :: "event \<Rightarrow> unit io" where
  "emit ev w = (Inr (), w\<lparr>trace := trace w @ [ev]\<rparr>)"

definition console_log :: "string \<Rightarrow> unit io" where
  "console_log s = emit (ConsoleLog s)"

definition console_warn :: "string \<Rightarrow> unit io" where
  "console_warn s = emit (ConsoleWarn s)"

text \<open>A call to the environment: it is recorded, and the environment's answer is the outcome.\<close>

definition external :: "call \<Rightarrow> error + 'a \<Rightarrow> 'a io" where
  "external c answer w = (answer, w\<lparr>trace := trace w @ [Call c]\<rparr>)"

subsection \<open>The libraries: simple-git, fs, JSON, inquirer, the configuration\<close>

definition git_status :: "env \<Rightarrow> status_result io" where
  "git_status env w =
     external GitStatus (if fetched w then status_fetched env else status_local env) w"

definition git_fetch :: "env \<Rightarrow> string \<Rightarrow> unit io" where
  "git_fetch env remote w =
     (case external (GitFetch remote) (fetch_result env) w of
        (Inl e, w') \<Rightarrow> (Inl e, w')
      | (Inr x, w') \<Rightarrow> (Inr x, w'\<lparr>fetched := True\<rparr>))"

text \<open>
  \<^verbatim>\<open>fs.readFile\<close> fails when the environment says so and when there is no file;
  \<^verbatim>\<open>fs.writeFile\<close>, when it succeeds, makes the text of its argument the content
  of the file. \<^verbatim>\<open>JSON.stringify\<close> and \<^verbatim>\<open>JSON.parse\<close> are inverse on the
  values concerned, so the file holds the value itself.
\<close>

definition fs_mkdir :: "env \<Rightarrow> unit io" where
  "fs_mkdir env = external FsMkdir (mkdir_result env)"

definition fs_readFile :: "env \<Rightarrow> file_content io" where
  "fs_readFile env w =
     external FsReadFile
       (case readFile_error env of
          Some e \<Rightarrow> Inl e
        | None \<Rightarrow>
            (case queueFile w of
               None \<Rightarrow> Inl (Error ''ENOENT: no such file or directory'')
             | Some c \<Rightarrow> Inr c)) w"

definition fs_writeFile :: "env \<Rightarrow> json \<Rightarrow> unit io" where
  "fs_writeFile env queue w =
     (case external (FsWriteFile queue) (writeFile_result env) w of
        (Inl e, w') \<Rightarrow> (Inl e, w')
      | (Inr x, w') \<Rightarrow> (Inr x, w'\<lparr>queueFile := Some (JSONText queue)\<rparr>))"

definition JSON_parse :: "file_content \<Rightarrow> json io" where
  "JSON_parse existing =
     (case existing of
        NotJSON \<Rightarrow> io_throw (SyntaxError ''Unexpected token in JSON'')
      | JSONText v \<Rightarrow> io_return v)"

text \<open>\<^verbatim>\<open>queue.push(operation)\<close>: a value that is not an array has no such method.\<close>

definition queue_push :: "json \<Rightarrow> queued_operation \<Rightarrow> json io" where
  "queue_push queue operation =
     (case queue of
        JArray entries \<Rightarrow> io_return (JArray (entries @ [operation]))
      | JNotArray \<Rightarrow> io_throw (TypeError ''queue.push is not a function''))"

subsection \<open>GitRepository (src/core/git-repository.js)\<close>

definition isRepository :: "env \<Rightarrow> bool" where
  "isRepository env = isInitialized env"

definition getStatus :: "env \<Rightarrow> status_result io" where
  "getStatus env =
     (if \<not> isInitialized env then io_throw (Error ''Repository not initialized'')
      else git_status env)"

definition getCurrentBranch :: "env \<Rightarrow> string io" where
  "getCurrentBranch env = io_bind (getStatus env) (\<lambda>status. io_return (st_current status))"

definition getBranches :: "env \<Rightarrow> string list io" where
  "getBranches env =
     (if \<not> isInitialized env then io_throw (Error ''Repository not initialized'')
      else external (GitBranch [''--all'']) (branch_all env))"

definition getRemotes :: "env \<Rightarrow> string list io" where
  "getRemotes env =
     (if \<not> isInitialized env then io_throw (Error ''Repository not initialized'')
      else external GitGetRemotes (remote_names env))"

text \<open>\<^verbatim>\<open>push(remote, branch)\<close>: \<^verbatim>\<open>branch || await this.getCurrentBranch()\<close>.\<close>

definition push :: "env \<Rightarrow> string \<Rightarrow> string \<Rightarrow> unit io" where
  "push env remote branch =
     (if \<not> isInitialized env then io_throw (Error ''Repository not initialized'')
      else io_bind (if branch \<noteq> [] then io_return branch else getCurrentBranch env)
             (\<lambda>currentBranch. external (GitPush [remote, currentBranch]) (push_result env)))"

definition fetch :: "env \<Rightarrow> string \<Rightarrow> unit io" where
  "fetch env remote =
     (if \<not> isInitialized env then io_throw (Error ''Repository not initialized'')
      else git_fetch env remote)"

definition stash :: "env \<Rightarrow> string \<Rightarrow> unit io" where
  "stash env msg =
     (if \<not> isInitialized env then io_throw (Error ''Repository not initialized'')
      else if msg \<noteq> [] then external (GitStash [''push'', ''-m'', msg]) (stash_push_result env)
      else external (GitStash []) (stash_push_result env))"

definition stashPop :: "env \<Rightarrow> unit io" where
  "stashPop env =
     (if \<not> isInitialized env then io_throw (Error ''Repository not initialized'')
      else external (GitStash [''pop'']) (stash_pop_result env))"

subsection \<open>SyncCommand (src/commands/sync.js)\<close>

text \<open>
  The functions below are reached through \<^verbatim>\<open>execute\<close>, which first checks that
  \<^verbatim>\<open>this.gitRepo\<close> is there; they are modelled for a \<^verbatim>\<open>gitRepo\<close> that is not null.
  In the console messages the bullet of the dry-run plan is written \<open>*\<close>.
\<close>

text \<open>
  \<^verbatim>\<open>getSyncStrategy(options)\<close>, lines 461-469. The configuration manager answers
  with the configured value of \<^verbatim>\<open>core.syncStrategy\<close>, any string.
\<close>

definition getSyncStrategy :: "env \<Rightarrow> sync_options \<Rightarrow> string io" where
  "getSyncStrategy env options =
     (if opt_rebase options then io_return ''rebase''
      else if opt_merge options then io_return ''merge''
      else external ConfigGetSyncStrategy (config_syncStrategy env))"

text \<open>
  Lines 104-110 of \<^verbatim>\<open>queueSyncOperation\<close>: \<^verbatim>\<open>queue\<close> starts as the empty array and
  becomes the parsed content of the queue file, unless reading or parsing throws; the
  inner \<^verbatim>\<open>catch\<close> is empty (its comment: the file does not exist or is invalid, start
  with an empty queue).
\<close>

definition read_queue :: "env \<Rightarrow> json io" where
  "read_queue env =
     io_catch (io_bind (fs_readFile env) JSON_parse) (\<lambda>error. io_return (JArray []))"

text \<open>
  The object literal of lines 112-118, for the branch that line 115 awaits:
  \<^verbatim>\<open>new Date().toISOString()\<close>, \<^verbatim>\<open>this.gitRepo.workingDir\<close>, the branch, the options
  and \<^verbatim>\<open>Date.now().toString()\<close>.
\<close>

definition operation_built :: "env \<Rightarrow> sync_options \<Rightarrow> string \<Rightarrow> queued_operation" where
  "operation_built env options branch =
     \<lparr>q_timestamp = date_toISOString env,
      q_workingDir = workingDir env,
      q_branch = branch,
      q_options = options,
      q_id = natToString (date_now env)\<rparr>"

text \<open>\<^verbatim>\<open>queueSyncOperation(options)\<close>, lines 97-129.\<close>

definition queueSyncOperation :: "env \<Rightarrow> sync_options \<Rightarrow> unit io" where
  \<open>queueSyncOperation env options =
     io_catch
       (io_then (fs_mkdir env)
       (io_bind (read_queue env)
          (\<lambda>queue.
       io_bind (getCurrentBranch env) (\<lambda>branch.
       io_bind
          (queue_push queue (operation_built env options branch))
          (\<lambda>queue'.
       io_then (fs_writeFile env queue')
       (io_then (console_log ''Sync operation queued'')
       (console_log
          ''Run "easygit sync --process-queue" when online to execute queued operations'')))))))
       (\<lambda>error. console_warn ''Warning: Could not queue sync operation'')\<close>

text \<open>
  The identifier \<^verbatim>\<open>options\<close> as \<^verbatim>\<open>checkNetworkConnectivity(remote)\<close> evaluates it
  at line 90: the function has the one parameter \<^verbatim>\<open>remote\<close>, the module binds
  \<^verbatim>\<open>chalk\<close>, \<^verbatim>\<open>inquirer\<close> and \<^verbatim>\<open>SyncCommand\<close> only, and there is no global of
  that name, so the evaluation throws a ReferenceError.
\<close>

definition options_at_line_90 :: "sync_options io" where
  "options_at_line_90 = io_throw (ReferenceError ''options is not defined'')"

text \<open>
  \<^verbatim>\<open>checkNetworkConnectivity(remote)\<close>, lines 70-95. The array of remotes is the
  list of their names: \<^verbatim>\<open>remotes.find(r => r.name === remote)\<close> is falsy exactly
  when no name equals \<^verbatim>\<open>remote\<close>.
\<close>

definition checkNetworkConnectivity :: "env \<Rightarrow> string \<Rightarrow> unit io" where
  \<open>checkNetworkConnectivity env remote =
     io_catch
       (io_bind (getRemotes env) (\<lambda>remotes.
        io_then
          (if find (\<lambda>r. r = remote) remotes = None
           then io_throw (Error (''Remote "'' @ remote @ ''" not found. Available remotes: ''
                                 @ join '', '' remotes))
           else io_return ())
          (external (GitRaw [''ls-remote'', ''--heads'', remote]) (raw_result env))))
       (\<lambda>error.
          if str_includes (message error) ''Could not resolve hostname''
             \<or> str_includes (message error) ''Connection refused''
             \<or> str_includes (message error) ''Network is unreachable''
          then
            io_then (console_log ''Network connectivity issue detected.'')
            (io_then
               (console_log
                  ''   Your sync operation will be queued for when connectivity is restored.'')
            (io_bind options_at_line_90 (\<lambda>options. queueSyncOperation env options)))
          else io_throw error)\<close>

text \<open>\<^verbatim>\<open>analyzeBranchState(currentBranch, remote)\<close>, lines 131-160.\<close>

definition analyzeBranchState :: "env \<Rightarrow> string \<Rightarrow> string \<Rightarrow> branch_state io" where
  "analyzeBranchState env currentBranch remote =
     io_catch
       (io_bind (getStatus env) (\<lambda>status.
        let ahead = or0 (st_ahead status);
            behind = or0 (st_behind status)
        in
        io_bind (getBranches env) (\<lambda>branches.
        let remoteBranch = remote @ ''/'' @ currentBranch;
            hasRemoteBranch = (remoteBranch \<in> set branches);
            hasUncommittedChanges = (\<not> st_isClean status)
        in
        io_return
          \<lparr>bs_currentBranch = currentBranch,
           bs_remote = remote,
           bs_remoteBranch = remoteBranch,
           bs_hasRemoteBranch = hasRemoteBranch,
           bs_ahead = ahead,
           bs_behind = behind,
           bs_hasUncommittedChanges = hasUncommittedChanges,
           bs_status = determineSyncStatus ahead behind hasRemoteBranch\<rparr>)))
       (\<lambda>error. io_throw (Error (''Failed to analyze branch state: '' @ message error)))"

text \<open>The text of a classification, as the template literals print it.\<close>

fun status_text :: "sync_status \<Rightarrow> string" where
  "status_text NewBranch = ''new-branch''"
| "status_text UpToDate = ''up-to-date''"
| "status_text Ahead = ''ahead''"
| "status_text Behind = ''behind''"
| "status_text Diverged = ''diverged''"
| "status_text Unknown = ''unknown''"

text \<open>
  \<^verbatim>\<open>showDryRun(branchState, options)\<close>, lines 186-227. The \<^verbatim>\<open>switch\<close> has no case
  for \<^verbatim>\<open>'unknown'\<close> and no default.
\<close>

definition showDryRun :: "env \<Rightarrow> branch_state \<Rightarrow> sync_options \<Rightarrow> unit io" where
  "showDryRun env branchState options =
     io_then (console_log ([CHR 0x0A] @ ''Dry run - showing what would be executed:'' @ [CHR 0x0A]))
    (io_then (console_log ''Repository State:'')
    (io_then (console_log (''  Current branch: '' @ bs_currentBranch branchState))
    (io_then (console_log (''  Remote: '' @ bs_remote branchState))
    (io_then (console_log (''  Status: '' @ status_text (bs_status branchState)))
    (io_then (console_log (''  Ahead: '' @ numberToString (bs_ahead branchState) @ '' commits''))
    (io_then (console_log (''  Behind: '' @ numberToString (bs_behind branchState) @ '' commits''))
    (io_then (console_log (''  Uncommitted changes: ''
                @ (if bs_hasUncommittedChanges branchState then ''Yes'' else ''No'')))
    (io_then (console_log ([CHR 0x0A] @ ''Planned Actions:''))
    (io_then
       (case bs_status branchState of
          UpToDate \<Rightarrow> console_log ''  * No action needed - branch is up to date''
        | Ahead \<Rightarrow>
            console_log (''  * Push '' @ numberToString (bs_ahead branchState) @ '' commits to ''
                         @ bs_remoteBranch branchState)
        | Behind \<Rightarrow>
            io_bind (getSyncStrategy env options) (\<lambda>strategy.
              console_log (''  * '' @ (if strategy = ''rebase'' then ''Rebase'' else ''Merge'')
                           @ '' '' @ numberToString (bs_behind branchState) @ '' commits from ''
                           @ bs_remoteBranch branchState))
        | Diverged \<Rightarrow> console_log ''  * Handle diverged history (requires user intervention)''
        | NewBranch \<Rightarrow>
            io_then (console_log (''  * Create new remote branch '' @ bs_remoteBranch branchState))
              (console_log (''  * Push '' @ numberToString (bs_ahead branchState) @ '' commits''))
        | Unknown \<Rightarrow> io_return ())
       (if bs_hasUncommittedChanges branchState
        then io_then (console_log ''  * Stash uncommitted changes before sync'')
               (console_log ''  * Restore stashed changes after sync'')
        else io_return ()))))))))))"

text \<open>\<^verbatim>\<open>handleUpToDate(branchState)\<close>, lines 277-280.\<close>

definition handleUpToDate :: "branch_state \<Rightarrow> unit io" where
  "handleUpToDate branchState =
     io_then (console_log ''Branch is already up to date'')
       (console_log (''   '' @ bs_currentBranch branchState @ '' is synchronized with ''
                     @ bs_remoteBranch branchState))"

text \<open>\<^verbatim>\<open>handleAhead(branchState, options)\<close>, lines 282-305.\<close>

definition handleAhead :: "env \<Rightarrow> branch_state \<Rightarrow> sync_options \<Rightarrow> unit io" where
  \<open>handleAhead env branchState options =
     io_then (console_log (''Pushing '' @ numberToString (bs_ahead branchState) @ '' commits to ''
                           @ bs_remoteBranch branchState @ ''...''))
       (io_catch
          (io_then
             (if opt_force options then
                io_then (console_log ''Force pushing (this can overwrite remote history)'')
                  (external (GitPush [bs_remote branchState, bs_currentBranch branchState,
                                      ''--force'']) (push_result env))
              else if opt_forceWithLease options then
                io_then (console_log ''Force pushing with lease (safer force push)'')
                  (external (GitPush [bs_remote branchState, bs_currentBranch branchState,
                                      ''--force-with-lease'']) (push_result env))
              else push env (bs_remote branchState) (bs_currentBranch branchState))
             (console_log ''Successfully pushed changes''))
          (\<lambda>error.
             if str_includes (message error) ''rejected''
                \<and> str_includes (message error) ''non-fast-forward''
             then
               io_then (console_log ''Push rejected - remote has new commits'')
              (io_then (console_log ''Run "easygit sync" again to pull and merge remote changes'')
              (io_throw (Error ''Push rejected due to remote changes'')))
             else io_throw error))\<close>

text \<open>\<^verbatim>\<open>handleBehind(branchState, options)\<close>, lines 307-328.\<close>

definition handleBehind :: "env \<Rightarrow> branch_state \<Rightarrow> sync_options \<Rightarrow> unit io" where
  \<open>handleBehind env branchState options =
     io_bind (getSyncStrategy env options) (\<lambda>strategy.
     io_then (console_log ((if strategy = ''rebase'' then ''Rebasing'' else ''Merging'') @ '' ''
                           @ numberToString (bs_behind branchState) @ '' commits from ''
                           @ bs_remoteBranch branchState @ ''...''))
       (io_catch
          (io_then
             (if strategy = ''rebase''
              then external (GitRebase [bs_remoteBranch branchState]) (rebase_result env)
              else external (GitMerge [bs_remoteBranch branchState]) (merge_result env))
             (console_log (''Successfully ''
                           @ (if strategy = ''rebase'' then ''rebased'' else ''merged'')
                           @ '' remote changes'')))
          (\<lambda>error.
             if str_includes (message error) ''CONFLICT''
             then
               io_then (console_log ''Merge conflicts detected'')
              (io_then (console_log ''Use "easygit resolve" to resolve conflicts interactively'')
              (io_throw (Error ''Merge conflicts need to be resolved'')))
             else io_throw error)))\<close>

text \<open>\<^verbatim>\<open>handleRebaseDiverged(branchState)\<close>, lines 381-399.\<close>

definition handleRebaseDiverged :: "env \<Rightarrow> branch_state \<Rightarrow> unit io" where
  \<open>handleRebaseDiverged env branchState =
     io_catch
       (io_then (console_log ''Rebasing local commits on top of remote...'')
       (io_then (external (GitRebase [bs_remoteBranch branchState]) (rebase_result env))
       (io_then (console_log ''Pushing rebased commits...'')
       (io_then (push env (bs_remote branchState) (bs_currentBranch branchState))
       (console_log ''Successfully rebased and pushed'')))))
       (\<lambda>error.
          if str_includes (message error) ''CONFLICT''
          then
            io_then (console_log ''Rebase conflicts detected'')
           (io_then (console_log ''Resolve conflicts and run "git rebase --continue"'')
           (io_then (console_log ''   Or run "git rebase --abort" to cancel the rebase'')
           (io_throw (Error ''Rebase conflicts need to be resolved''))))
          else io_throw error)\<close>

text \<open>\<^verbatim>\<open>handleMergeDiverged(branchState)\<close>, lines 401-418.\<close>

definition handleMergeDiverged :: "env \<Rightarrow> branch_state \<Rightarrow> unit io" where
  \<open>handleMergeDiverged env branchState =
     io_catch
       (io_then (console_log ''Merging remote changes...'')
       (io_then (external (GitMerge [bs_remoteBranch branchState]) (merge_result env))
       (io_then (console_log ''Pushing merge commit...'')
       (io_then (push env (bs_remote branchState) (bs_currentBranch branchState))
       (console_log ''Successfully merged and pushed'')))))
       (\<lambda>error.
          if str_includes (message error) ''CONFLICT''
          then
            io_then (console_log ''Merge conflicts detected'')
           (io_then (console_log ''Use "easygit resolve" to resolve conflicts interactively'')
           (io_throw (Error ''Merge conflicts need to be resolved'')))
          else io_throw error)\<close>

text \<open>\<^verbatim>\<open>handleForcePushDiverged(branchState)\<close>, lines 420-447.\<close>

definition handleForcePushDiverged :: "env \<Rightarrow> branch_state \<Rightarrow> unit io" where
  "handleForcePushDiverged env branchState =
     io_then (console_log ''WARNING: Force push will overwrite remote history!'')
    (io_then (console_log ''   This may cause data loss for other team members.'')
    (io_bind (external PromptConfirmed (prompt_confirmed env)) (\<lambda>confirmed.
       if \<not> confirmed then io_throw (Error ''Force push cancelled by user'')
       else
         io_catch
           (io_then (console_log ''Force pushing with lease...'')
           (io_then (external (GitPush [bs_remote branchState, bs_currentBranch branchState,
                                        ''--force-with-lease'']) (push_result env))
           (io_then (console_log ''Force push completed'')
           (console_log ''Notify your team about the history rewrite''))))
           (\<lambda>error.
              if str_includes (message error) ''stale info''
              then io_throw (Error (''Force push rejected - remote has newer commits. ''
                                    @ ''Someone else pushed while you were working.''))
              else io_throw error))))"

text \<open>\<^verbatim>\<open>handleDiverged(branchState, options)\<close>, lines 330-379.\<close>

definition handleDiverged :: "env \<Rightarrow> branch_state \<Rightarrow> sync_options \<Rightarrow> unit io" where
  "handleDiverged env branchState options =
     io_then (console_log ''Branch has diverged from remote'')
    (io_then (console_log (''   Local: '' @ numberToString (bs_ahead branchState)
                           @ '' commits ahead''))
    (io_then (console_log (''   Remote: '' @ numberToString (bs_behind branchState)
                           @ '' commits behind''))
    (io_bind (external PromptStrategy (prompt_strategy env)) (\<lambda>strategy.
       case strategy of
         ChooseRebase \<Rightarrow> handleRebaseDiverged env branchState
       | ChooseMerge \<Rightarrow> handleMergeDiverged env branchState
       | ChooseForce \<Rightarrow> handleForcePushDiverged env branchState
       | ChooseCancel \<Rightarrow> io_throw (Error ''Sync cancelled by user'')))))"

text \<open>\<^verbatim>\<open>handleNewBranch(branchState, options)\<close>, lines 449-459.\<close>

definition handleNewBranch :: "env \<Rightarrow> branch_state \<Rightarrow> sync_options \<Rightarrow> unit io" where
  "handleNewBranch env branchState options =
     io_then (console_log (''Creating new remote branch '' @ bs_remoteBranch branchState
                           @ ''...''))
       (io_catch
          (io_then (external (GitPush [bs_remote branchState, bs_currentBranch branchState,
                                       ''-u'']) (push_result env))
          (io_then (console_log ''Successfully created remote branch and pushed commits'')
          (console_log (''   Upstream tracking set to '' @ bs_remoteBranch branchState))))
          (\<lambda>error. io_throw (Error (''Failed to create remote branch: '' @ message error))))"

text \<open>
  The \<^verbatim>\<open>switch\<close> inside the \<^verbatim>\<open>try\<close> of \<^verbatim>\<open>executeSyncStrategy\<close>, lines 239-262:
  the step that the stash and its restoration bracket.
\<close>

definition bracketed_step :: "env \<Rightarrow> branch_state \<Rightarrow> sync_options \<Rightarrow> unit io" where
  "bracketed_step env branchState options =
     (case bs_status branchState of
        UpToDate \<Rightarrow> handleUpToDate branchState
      | Ahead \<Rightarrow> handleAhead env branchState options
      | Behind \<Rightarrow> handleBehind env branchState options
      | Diverged \<Rightarrow> handleDiverged env branchState options
      | NewBranch \<Rightarrow> handleNewBranch env branchState options
      | Unknown \<Rightarrow>
          io_throw (Error (''Unknown sync status: '' @ status_text (bs_status branchState))))"

text \<open>
  The \<^verbatim>\<open>finally\<close> block of \<^verbatim>\<open>executeSyncStrategy\<close>, lines 263-274, for the value
  of the flag \<^verbatim>\<open>stashCreated\<close>.
\<close>

definition restore_stash :: "env \<Rightarrow> bool \<Rightarrow> unit io" where
  \<open>restore_stash env stashCreated =
     (if stashCreated then
        io_catch
          (io_then (console_log ''Restoring stashed changes...'') (stashPop env))
          (\<lambda>error.
             io_then (console_warn ''Warning: Could not restore stashed changes automatically'')
               (console_log ''Run "git stash pop" manually to restore your changes''))
      else io_return ())\<close>

text \<open>\<^verbatim>\<open>executeSyncStrategy(branchState, options)\<close>, lines 229-275.\<close>

definition executeSyncStrategy :: "env \<Rightarrow> branch_state \<Rightarrow> sync_options \<Rightarrow> unit io" where
  "executeSyncStrategy env branchState options =
     io_bind
       (if bs_hasUncommittedChanges branchState \<and> bs_status branchState \<noteq> Ahead
        then
          io_then (console_log ''Stashing uncommitted changes...'')
         (io_then (stash env ''easygit-sync-auto-stash'')
         (io_return True))
        else io_return False)
       (\<lambda>stashCreated.
          io_finally (bracketed_step env branchState options) (restore_stash env stashCreated))"

text \<open>\<^verbatim>\<open>execute(options)\<close>, lines 37-68.\<close>

definition execute :: "env \<Rightarrow> sync_options \<Rightarrow> unit io" where
  \<open>execute env options =
     (if \<not> hasGitRepo env \<or> \<not> isRepository env
      then io_throw (Error
             ''Not in a Git repository. Use "git init" to create a new repository.'')
      else
        io_then (console_log ''Analyzing synchronization state...'')
       (io_bind
          (case opt_branch options of
             Some b \<Rightarrow> if b \<noteq> [] then io_return b else getCurrentBranch env
           | None \<Rightarrow> getCurrentBranch env)
          (\<lambda>currentBranch.
        let remote = opt_remote options in
        io_then (if \<not> opt_dryRun options then checkNetworkConnectivity env remote
                 else io_return ())
       (io_then (console_log (''Fetching from '' @ remote @ ''...''))
       (io_then (if \<not> opt_dryRun options then fetch env remote else io_return ())
       (io_bind (analyzeBranchState env currentBranch remote) (\<lambda>branchState.
          if opt_dryRun options then showDryRun env branchState options
          else executeSyncStrategy env branchState options)))))))\<close>

subsection \<open>Observing an invocation\<close>

text \<open>The calls to the environment and the warnings among the events of a trace.\<close>

fun calls :: "event list \<Rightarrow> call list" where
  "calls [] = []"
| "calls (Call c # t) = c # calls t"
| "calls (ConsoleLog s # t) = calls t"
| "calls (ConsoleWarn s # t) = calls t"

fun warnings :: "event list \<Rightarrow> string list" where
  "warnings [] = []"
| "warnings (Call c # t) = warnings t"
| "warnings (ConsoleLog s # t) = warnings t"
| "warnings (ConsoleWarn s # t) = s # warnings t"

fun logs :: "event list \<Rightarrow> string list" where
  "logs [] = []"
| "logs (Call c # t) = logs t"
| "logs (ConsoleLog s # t) = s # logs t"
| "logs (ConsoleWarn s # t) = logs t"

text \<open>The events that running \<open>m\<close> from the world \<open>w\<close> adds to the trace.\<close>

definition events_of :: "'a io \<Rightarrow> world \<Rightarrow> event list" where
  "events_of m w = drop (length (trace w)) (trace (snd (m w)))"

definition calls_of :: "'a io \<Rightarrow> world \<Rightarrow> call list" where
  "calls_of m w = calls (events_of m w)"

definition warnings_of :: "'a io \<Rightarrow> world \<Rightarrow> string list" where
  "warnings_of m w = warnings (events_of m w)"

definition logs_of :: "'a io \<Rightarrow> world \<Rightarrow> string list" where
  "logs_of m w = logs (events_of m w)"

text \<open>The calls that push, and the calls that create or pop a stash.\<close>

fun is_push :: "call \<Rightarrow> bool" where
  "is_push (GitPush args) = True"
| "is_push c = False"

fun is_stash :: "call \<Rightarrow> bool" where
  "is_stash (GitStash args) = True"
| "is_stash c = False"

subsection \<open>Concrete invocations\<close>

text \<open>
  A world at the start of an invocation, the options of a plain \<^verbatim>\<open>easygit sync\<close>, and
  an environment in which every call succeeds: branch \<^verbatim>\<open>main\<close>, remote
  \<^verbatim>\<open>origin\<close>, the remote branch known, a clean tree, nothing ahead or behind.
\<close>

definition start_world :: world where
  "start_world = \<lparr>trace = [], fetched = False, queueFile = None\<rparr>"

definition plain_options :: sync_options where
  "plain_options =
     \<lparr>opt_remote = ''origin'', opt_branch = None, opt_rebase = False, opt_merge = False,
      opt_force = False, opt_forceWithLease = False, opt_dryRun = False,
      opt_allowUnrelated = False\<rparr>"

definition clean_status :: status_result where
  "clean_status = \<lparr>st_current = ''main'', st_ahead = 0, st_behind = 0, st_isClean = True\<rparr>"

definition quiet_env :: env where
  "quiet_env =
     \<lparr>hasGitRepo = True, isInitialized = True, workingDir = ''/repo'',
      status_local = Inr clean_status, status_fetched = Inr clean_status,
      branch_all = Inr [''main'', ''origin/main''],
      remote_names = Inr [''origin''],
      raw_result = Inr (), fetch_result = Inr (), push_result = Inr (),
      rebase_result = Inr (), merge_result = Inr (),
      stash_push_result = Inr (), stash_pop_result = Inr (),
      prompt_strategy = Inr ChooseRebase, prompt_confirmed = Inr True,
      config_syncStrategy = Inr ''rebase'',
      mkdir_result = Inr (), readFile_error = None, writeFile_result = Inr (),
      date_toISOString = ''2025-01-01T00:00:00.000Z'', date_now = 1735689600000\<rparr>"

text \<open>
  The same environment with the working tree reported clean (\<open>c\<close> true) or dirty
  (\<open>c\<close> false), everything else unchanged.
\<close>

definition with_isClean :: "bool \<Rightarrow> env \<Rightarrow> env" where
  "with_isClean c env =
     env\<lparr>status_local := map_sum id (\<lambda>s. s\<lparr>st_isClean := c\<rparr>) (status_local env),
         status_fetched := map_sum id (\<lambda>s. s\<lparr>st_isClean := c\<rparr>) (status_fetched env)\<rparr>"

text \<open>A branch state as \<^verbatim>\<open>analyzeBranchState\<close> builds it for \<^verbatim>\<open>origin/main\<close>.\<close>

definition main_state :: "int \<Rightarrow> int \<Rightarrow> bool \<Rightarrow> branch_state" where
  "main_state ahead behind dirty =
     \<lparr>bs_currentBranch = ''main'', bs_remote = ''origin'', bs_remoteBranch = ''origin/main'',
      bs_hasRemoteBranch = True, bs_ahead = ahead, bs_behind = behind,
      bs_hasUncommittedChanges = dirty,
      bs_status = determineSyncStatus ahead behind True\<rparr>"

text \<open>
  Environments for particular runs. In \<open>cancel_env\<close> the user cancels at the
  divergence prompt and the later pop fails; in \<open>conflict_env\<close> the user chooses
  rebase and the rebase stops on a conflict; in \<open>merge_conflict_env\<close> the same for
  merge; in \<open>offline_env\<close> the probe \<^verbatim>\<open>git ls-remote\<close> cannot resolve the host; in
  \<open>stale_env\<close> the remote has two commits that only a fetch would make known;
  \<open>later_env\<close> is a second invocation, one second after \<open>quiet_env\<close>.
\<close>

definition cancel_env :: env where
  "cancel_env =
     quiet_env\<lparr>prompt_strategy := Inr ChooseCancel,
               stash_pop_result := Inl (Error ''error: could not restore untracked files from stash'')\<rparr>"

definition conflict_env :: env where
  "conflict_env =
     quiet_env\<lparr>prompt_strategy := Inr ChooseRebase,
               rebase_result := Inl (Error ''CONFLICT (content): Merge conflict in README.md'')\<rparr>"

definition merge_conflict_env :: env where
  "merge_conflict_env =
     quiet_env\<lparr>prompt_strategy := Inr ChooseMerge,
               merge_result := Inl (Error ''CONFLICT (content): Merge conflict in README.md'')\<rparr>"

definition offline_env :: env where
  "offline_env =
     quiet_env\<lparr>raw_result :=
       Inl (Error ''ssh: Could not resolve hostname github.com: Name or service not known'')\<rparr>"

definition stale_env :: env where
  "stale_env = quiet_env\<lparr>status_fetched := Inr (clean_status\<lparr>st_behind := 2\<rparr>)\<rparr>"

definition later_env :: env where
  "later_env =
     quiet_env\<lparr>date_toISOString := ''2025-01-01T00:00:01.000Z'', date_now := 1735689601000\<rparr>"

text \<open>
  A queue file that holds one operation queued earlier, and an environment in which
  that file cannot be read although it can be written (a file without read
  permission).
\<close>

definition stored_entry :: queued_operation where
  "stored_entry =
     \<lparr>q_timestamp = ''2024-12-31T23:00:00.000Z'', q_workingDir = ''/repo'',
      q_branch = ''feature'', q_options = plain_options, q_id = ''1735686000000''\<rparr>"

definition stored_world :: world where
  "stored_world = start_world\<lparr>queueFile := Some (JSONText (JArray [stored_entry]))\<rparr>"

definition unreadable_env :: env where
  "unreadable_env =
     quiet_env\<lparr>readFile_error := Some (Error ''EACCES: permission denied, open sync-queue.json'')\<rparr>"

text \<open>The calls that fetch, and the call that writes the queue file.\<close>

fun is_fetch :: "call \<Rightarrow> bool" where
  "is_fetch (GitFetch r) = True"
| "is_fetch c = False"

fun is_write :: "call \<Rightarrow> bool" where
  "is_write (FsWriteFile q) = True"
| "is_write c = False"

text \<open>What \<^verbatim>\<open>git.status()\<close> answers in the world \<open>w\<close>.\<close>

definition status_answer :: "env \<Rightarrow> world \<Rightarrow> error + status_result" where
  "status_answer env w = (if fetched w then status_fetched env else status_local env)"

text \<open>The value of \<^verbatim>\<open>queue\<close> after lines 104-110, for a queue file and an environment.\<close>

definition existing_queue :: "env \<Rightarrow> world \<Rightarrow> json" where
  "existing_queue env w =
     (case readFile_error env of
        Some e \<Rightarrow> JArray []
      | None \<Rightarrow>
          (case queueFile w of
             None \<Rightarrow> JArray []
           | Some NotJSON \<Rightarrow> JArray []
           | Some (JSONText v) \<Rightarrow> v))"

subsection \<open>What a computation may emit\<close>

text \<open>
  \<open>emits_only P m\<close>: from every world, \<open>m\<close> extends the trace, and only by events
  that satisfy \<open>P\<close>. An event of the bracketed step is a console message that is not
  a warning, or a call that is not a stash call.
\<close>

definition emits_only :: "(event \<Rightarrow> bool) \<Rightarrow> 'a io \<Rightarrow> bool" where
  "emits_only P m \<longleftrightarrow> (\<forall>w. \<exists>t. trace (snd (m w)) = trace w @ t \<and> list_all P t)"

fun step_event :: "event \<Rightarrow> bool" where
  "step_event (Call c) = (\<not> is_stash c)"
| "step_event (ConsoleLog s) = True"
| "step_event (ConsoleWarn s) = False"

text \<open>Events that are not a fetch; events that are not the listing of all branches.\<close>

fun not_fetch :: "event \<Rightarrow> bool" where
  "not_fetch (Call c) = (\<not> is_fetch c)"
| "not_fetch (ConsoleLog s) = True"
| "not_fetch (ConsoleWarn s) = True"

fun not_branch :: "event \<Rightarrow> bool" where
  "not_branch (Call c) = (c \<noteq> GitBranch [''--all''])"
| "not_branch (ConsoleLog s) = True"
| "not_branch (ConsoleWarn s) = True"

text \<open>
  \<open>agree m m'\<close>: from every world in which a fetch has succeeded, \<open>m\<close> and \<open>m'\<close>
  have the same outcome, and the fetch remains known.
\<close>

definition agree :: "'a io \<Rightarrow> 'a io \<Rightarrow> bool" where
  "agree m m' \<longleftrightarrow> (\<forall>w. fetched w \<longrightarrow> m w = m' w \<and> fetched (snd (m w)))"

text \<open>
  The world in which the bracketed step starts when \<^verbatim>\<open>executeSyncStrategy\<close> has
  created a stash (lines 233-235).
\<close>

definition after_stash :: "world \<Rightarrow> world" where
  "after_stash w =
     w\<lparr>trace := trace w @ [ConsoleLog ''Stashing uncommitted changes...'',
                             Call (GitStash [''push'', ''-m'', ''easygit-sync-auto-stash''])]\<rparr>"

section \<open>Properties\<close>

lemmas io_defs =
  io_return_def io_throw_def io_bind_def io_then_def io_catch_def io_finally_def
  emit_def console_log_def console_warn_def external_def

lemmas handler_defs =
  bracketed_step_def handleUpToDate_def handleAhead_def handleBehind_def handleDiverged_def
  handleNewBranch_def handleRebaseDiverged_def handleMergeDiverged_def
  handleForcePushDiverged_def getSyncStrategy_def

lemmas repository_defs =
  isRepository_def getStatus_def getCurrentBranch_def getBranches_def getRemotes_def
  push_def fetch_def stash_def stashPop_def git_status_def git_fetch_def

lemmas observe_defs = calls_of_def warnings_of_def logs_of_def events_of_def

lemmas example_defs =
  start_world_def plain_options_def clean_status_def quiet_env_def main_state_def
  determineSyncStatus_def after_stash_def

lemmas execute_defs =
  execute_def checkNetworkConnectivity_def options_at_line_90_def analyzeBranchState_def
  showDryRun_def executeSyncStrategy_def restore_stash_def Let_def

subsection \<open>Classification follows the precedence rule\<close>

lemma analyzeBranchState_status_clean_independent:
  "map_sum id bs_status (fst (analyzeBranchState (with_isClean c env) cb rm w))
     = map_sum id bs_status (fst (analyzeBranchState (with_isClean c' env) cb rm w))"
  by (cases "status_local env"; cases "status_fetched env"; cases "branch_all env")
     (simp_all add: analyzeBranchState_def with_isClean_def getStatus_def getBranches_def
        git_status_def io_defs Let_def)

text \<open>
  C1. For non-negative counts, \<^verbatim>\<open>determineSyncStatus\<close> is the precedence rule of the
  specification: new-branch whenever the remote branch does not exist, whatever the
  counts; otherwise up-to-date, ahead, behind or diverged exactly under the stated
  conditions on the counts. The five results are exhaustive (the sixth value
  \<^verbatim>\<open>'unknown'\<close> is never returned) and mutually exclusive, and the classification that
  \<^verbatim>\<open>analyzeBranchState\<close> stores does not change when the working tree is reported
  dirty instead of clean.
\<close>

theorem determineSyncStatus_precedence:
  assumes "0 \<le> ahead" and "0 \<le> behind"
  shows "determineSyncStatus ahead behind hasRemoteBranch =
           (if \<not> hasRemoteBranch then NewBranch
            else if ahead = 0 \<and> behind = 0 then UpToDate
            else if 0 < ahead \<and> behind = 0 then Ahead
            else if ahead = 0 \<and> 0 < behind then Behind
            else Diverged)
         \<and> (determineSyncStatus ahead behind hasRemoteBranch = NewBranch
              \<longleftrightarrow> \<not> hasRemoteBranch)
         \<and> (determineSyncStatus ahead behind hasRemoteBranch = UpToDate
              \<longleftrightarrow> hasRemoteBranch \<and> ahead = 0 \<and> behind = 0)
         \<and> (determineSyncStatus ahead behind hasRemoteBranch = Ahead
              \<longleftrightarrow> hasRemoteBranch \<and> 0 < ahead \<and> behind = 0)
         \<and> (determineSyncStatus ahead behind hasRemoteBranch = Behind
              \<longleftrightarrow> hasRemoteBranch \<and> ahead = 0 \<and> 0 < behind)
         \<and> (determineSyncStatus ahead behind hasRemoteBranch = Diverged
              \<longleftrightarrow> hasRemoteBranch \<and> 0 < ahead \<and> 0 < behind)
         \<and> determineSyncStatus ahead behind hasRemoteBranch \<noteq> Unknown
         \<and> map_sum id bs_status (fst (analyzeBranchState (with_isClean True env) cb rm w))
             = map_sum id bs_status (fst (analyzeBranchState (with_isClean False env) cb rm w))"
proof -
  have rule: "determineSyncStatus ahead behind hasRemoteBranch =
           (if \<not> hasRemoteBranch then NewBranch
            else if ahead = 0 \<and> behind = 0 then UpToDate
            else if 0 < ahead \<and> behind = 0 then Ahead
            else if ahead = 0 \<and> 0 < behind then Behind
            else Diverged)"
    using assms by (simp add: determineSyncStatus_def)
  have iffs: "(determineSyncStatus ahead behind hasRemoteBranch = NewBranch
              \<longleftrightarrow> \<not> hasRemoteBranch)
         \<and> (determineSyncStatus ahead behind hasRemoteBranch = UpToDate
              \<longleftrightarrow> hasRemoteBranch \<and> ahead = 0 \<and> behind = 0)
         \<and> (determineSyncStatus ahead behind hasRemoteBranch = Ahead
              \<longleftrightarrow> hasRemoteBranch \<and> 0 < ahead \<and> behind = 0)
         \<and> (determineSyncStatus ahead behind hasRemoteBranch = Behind
              \<longleftrightarrow> hasRemoteBranch \<and> ahead = 0 \<and> 0 < behind)
         \<and> (determineSyncStatus ahead behind hasRemoteBranch = Diverged
              \<longleftrightarrow> hasRemoteBranch \<and> 0 < ahead \<and> 0 < behind)
         \<and> determineSyncStatus ahead behind hasRemoteBranch \<noteq> Unknown"
    using assms unfolding rule by auto
  show ?thesis
    using rule iffs analyzeBranchState_status_clean_independent [of True env cb rm w False]
    by blast
qed

theorem determineSyncStatus_precedence_witness:
  "(0::int) \<le> 3 \<and> (0::int) \<le> 0 \<and> determineSyncStatus 3 0 True = Ahead
   \<and> determineSyncStatus 3 0 False = NewBranch
   \<and> determineSyncStatus 2 3 True = Diverged"
  using determineSyncStatus_precedence [of 3 0 True]
        determineSyncStatus_precedence [of 3 0 False]
        determineSyncStatus_precedence [of 2 3 True]
  by simp

subsection \<open>The push of the ahead state\<close>

text \<open>
  C10. In the ahead state \<^verbatim>\<open>handleAhead\<close> makes exactly one push call: with
  \<^verbatim>\<open>--force\<close> whenever the force option is set, also when force-with-lease is set
  too; with \<^verbatim>\<open>--force-with-lease\<close> when that option is set and force is not; and a
  plain push of the remote and the branch when neither is set.
\<close>

theorem handleAhead_push_mode:
  assumes "isInitialized env" and "bs_currentBranch bs \<noteq> []"
  shows "calls_of (handleAhead env bs options) w =
           (if opt_force options
            then [GitPush [bs_remote bs, bs_currentBranch bs, ''--force'']]
            else if opt_forceWithLease options
            then [GitPush [bs_remote bs, bs_currentBranch bs, ''--force-with-lease'']]
            else [GitPush [bs_remote bs, bs_currentBranch bs]])"
  using assms
  by (simp add: calls_of_def events_of_def handleAhead_def push_def io_defs
           split: sum.splits)

theorem handleAhead_push_mode_witness:
  "isInitialized quiet_env \<and> bs_currentBranch (main_state 3 0 False) \<noteq> []
   \<and> calls_of (handleAhead quiet_env (main_state 3 0 False)
                  (plain_options\<lparr>opt_force := True, opt_forceWithLease := True\<rparr>)) start_world
       = [GitPush [''origin'', ''main'', ''--force'']]"
  using handleAhead_push_mode [of quiet_env "main_state 3 0 False"
           "plain_options\<lparr>opt_force := True, opt_forceWithLease := True\<rparr>" start_world]
  by (simp add: quiet_env_def main_state_def plain_options_def)

subsection \<open>Traces of composed computations\<close>

lemma calls_append [simp]: "calls (xs @ ys) = calls xs @ calls ys"
  by (induction xs rule: calls.induct) simp_all

lemma warnings_append [simp]: "warnings (xs @ ys) = warnings xs @ warnings ys"
  by (induction xs rule: warnings.induct) simp_all

lemma logs_append [simp]: "logs (xs @ ys) = logs xs @ logs ys"
  by (induction xs rule: logs.induct) simp_all

lemma emits_only_return [intro!, simp]: "emits_only P (io_return x)"
  by (simp add: emits_only_def io_return_def)

lemma emits_only_throw [intro!, simp]: "emits_only P (io_throw e)"
  by (simp add: emits_only_def io_throw_def)

lemma emits_only_emit: "P ev \<Longrightarrow> emits_only P (emit ev)"
  by (simp add: emits_only_def emit_def)

lemma emits_only_log [intro!]: "P (ConsoleLog s) \<Longrightarrow> emits_only P (console_log s)"
  by (simp add: console_log_def emits_only_emit)

lemma emits_only_warn [intro!]: "P (ConsoleWarn s) \<Longrightarrow> emits_only P (console_warn s)"
  by (simp add: console_warn_def emits_only_emit)

lemma emits_only_external [intro!]: "P (Call c) \<Longrightarrow> emits_only P (external c a)"
  by (simp add: emits_only_def external_def)

lemma emits_only_bind [intro!]:
  assumes "emits_only P m" and "\<And>x. emits_only P (f x)"
  shows "emits_only P (io_bind m f)"
  unfolding emits_only_def
proof
  fix w
  obtain t where t: "trace (snd (m w)) = trace w @ t" "list_all P t"
    using assms(1) unfolding emits_only_def by blast
  show "\<exists>t. trace (snd (io_bind m f w)) = trace w @ t \<and> list_all P t"
  proof (cases "m w")
    case (Pair r w')
    show ?thesis
    proof (cases r)
      case (Inl e)
      with Pair t show ?thesis by (auto simp: io_bind_def)
    next
      case (Inr x)
      obtain t' where t': "trace (snd (f x w')) = trace w' @ t'" "list_all P t'"
        using assms(2) unfolding emits_only_def by blast
      with Pair Inr t show ?thesis by (auto simp: io_bind_def)
    qed
  qed
qed

lemma emits_only_then [intro!]:
  "emits_only P m \<Longrightarrow> emits_only P k \<Longrightarrow> emits_only P (io_then m k)"
  by (simp add: io_then_def emits_only_bind)

lemma emits_only_catch [intro!]:
  assumes "emits_only P m" and "\<And>e. emits_only P (h e)"
  shows "emits_only P (io_catch m h)"
  unfolding emits_only_def
proof
  fix w
  obtain t where t: "trace (snd (m w)) = trace w @ t" "list_all P t"
    using assms(1) unfolding emits_only_def by blast
  show "\<exists>t. trace (snd (io_catch m h w)) = trace w @ t \<and> list_all P t"
  proof (cases "m w")
    case (Pair r w')
    show ?thesis
    proof (cases r)
      case (Inr x)
      with Pair t show ?thesis by (auto simp: io_catch_def)
    next
      case (Inl e)
      obtain t' where t': "trace (snd (h e w')) = trace w' @ t'" "list_all P t'"
        using assms(2) unfolding emits_only_def by blast
      with Pair Inl t show ?thesis by (auto simp: io_catch_def)
    qed
  qed
qed

lemma emits_only_if [intro!]:
  "(c \<Longrightarrow> emits_only P a) \<Longrightarrow> (\<not> c \<Longrightarrow> emits_only P b)
     \<Longrightarrow> emits_only P (if c then a else b)"
  by simp

lemma emits_only_getStatus [intro!]:
  "P (Call GitStatus) \<Longrightarrow> emits_only P (getStatus env)"
  by (simp add: emits_only_def getStatus_def git_status_def external_def io_throw_def)

lemma emits_only_getCurrentBranch [intro!]:
  "P (Call GitStatus) \<Longrightarrow> emits_only P (getCurrentBranch env)"
  unfolding getCurrentBranch_def by auto

lemma emits_only_push [intro!]:
  "P (Call GitStatus) \<Longrightarrow> (\<And>args. P (Call (GitPush args))) \<Longrightarrow> emits_only P (push env r b)"
  unfolding push_def by auto

lemma emits_only_getSyncStrategy [intro!]:
  "P (Call ConfigGetSyncStrategy) \<Longrightarrow> emits_only P (getSyncStrategy env options)"
  unfolding getSyncStrategy_def by auto

text \<open>
  No handler of the bracketed step calls \<^verbatim>\<open>git stash\<close> or writes a warning: the
  stash and its restoration belong to \<^verbatim>\<open>executeSyncStrategy\<close> alone.
\<close>

lemma bracketed_step_events: "emits_only step_event (bracketed_step env bs options)"
  unfolding bracketed_step_def handleUpToDate_def handleAhead_def handleBehind_def
    handleDiverged_def handleNewBranch_def handleRebaseDiverged_def handleMergeDiverged_def
    handleForcePushDiverged_def
  by (auto split: sync_status.split divergence_choice.split)

lemma bracketed_step_run:
  "\<exists>t. trace (snd (bracketed_step env bs options w)) = trace w @ t \<and> list_all step_event t"
  using bracketed_step_events [of env bs options] unfolding emits_only_def by blast

lemma step_events_no_stash: "list_all step_event t \<Longrightarrow> filter is_stash (calls t) = []"
  by (induction t rule: calls.induct) simp_all

lemma step_events_no_warning: "list_all step_event t \<Longrightarrow> warnings t = []"
  by (induction t rule: calls.induct) simp_all

lemma step_events_no_pop:
  "list_all step_event t \<Longrightarrow> filter (\<lambda>c. c = GitStash [''pop'']) (calls t) = []"
  by (induction t rule: calls.induct) (auto elim: is_stash.elims)

subsection \<open>The stash and its restoration\<close>

text \<open>
  The run of \<^verbatim>\<open>executeSyncStrategy\<close> when a stash is created: the stash, the events
  of the bracketed step, the pop, and after a failed pop the warning and its guidance.
\<close>

lemma executeSyncStrategy_stashed:
  assumes "bs_hasUncommittedChanges bs" and "bs_status bs \<noteq> Ahead"
    and "isInitialized env" and "stash_push_result env = Inr ()"
  shows "\<exists>t tl. list_all step_event t
           \<and> events_of (bracketed_step env bs options) (after_stash w) = t
           \<and> fst (executeSyncStrategy env bs options w)
               = fst (bracketed_step env bs options (after_stash w))
           \<and> events_of (executeSyncStrategy env bs options) w
               = [ConsoleLog ''Stashing uncommitted changes...'',
                  Call (GitStash [''push'', ''-m'', ''easygit-sync-auto-stash''])] @ t
                 @ [ConsoleLog ''Restoring stashed changes...'', Call (GitStash [''pop''])] @ tl
           \<and> calls tl = []
           \<and> warnings tl
               = (case stash_pop_result env of
                    Inl e \<Rightarrow> [''Warning: Could not restore stashed changes automatically'']
                  | Inr u \<Rightarrow> [])"
proof -
  obtain r w2 where step: "bracketed_step env bs options (after_stash w) = (r, w2)"
    by (cases "bracketed_step env bs options (after_stash w)")
  obtain t where t: "trace w2 = trace (after_stash w) @ t" "list_all step_event t"
    using bracketed_step_run [of env bs options "after_stash w"] step by auto
  have ev_step: "events_of (bracketed_step env bs options) (after_stash w) = t"
    using step t by (simp add: events_of_def)
  define tl where \<open>tl =
     (case stash_pop_result env of
        Inl e \<Rightarrow> [ConsoleWarn ''Warning: Could not restore stashed changes automatically'',
                  ConsoleLog ''Run "git stash pop" manually to restore your changes'']
      | Inr u \<Rightarrow> [])\<close>
  have run: "executeSyncStrategy env bs options w
      = (r, w2\<lparr>trace := trace w2 @ [ConsoleLog ''Restoring stashed changes...'',
                                     Call (GitStash [''pop''])] @ tl\<rparr>)"
    using assms step unfolding tl_def
    by (cases "stash_pop_result env")
       (simp_all add: executeSyncStrategy_def restore_stash_def stash_def stashPop_def io_defs
          after_stash_def [symmetric])
  have ev: "events_of (executeSyncStrategy env bs options) w
      = [ConsoleLog ''Stashing uncommitted changes...'',
         Call (GitStash [''push'', ''-m'', ''easygit-sync-auto-stash''])] @ t
        @ [ConsoleLog ''Restoring stashed changes...'', Call (GitStash [''pop''])] @ tl"
    using t(1) by (simp add: run events_of_def after_stash_def)
  have "calls tl = []"
    unfolding tl_def by (cases "stash_pop_result env") simp_all
  moreover have "warnings tl
               = (case stash_pop_result env of
                    Inl e \<Rightarrow> [''Warning: Could not restore stashed changes automatically'']
                  | Inr u \<Rightarrow> [])"
    unfolding tl_def by (cases "stash_pop_result env") simp_all
  moreover have "fst (executeSyncStrategy env bs options w)
           = fst (bracketed_step env bs options (after_stash w))"
    by (simp add: run step)
  ultimately show ?thesis
    using t(2) ev_step ev by blast
qed

text \<open>The run of \<^verbatim>\<open>executeSyncStrategy\<close> when no stash is attempted.\<close>

lemma executeSyncStrategy_unstashed:
  assumes "\<not> (bs_hasUncommittedChanges bs \<and> bs_status bs \<noteq> Ahead)"
  shows "executeSyncStrategy env bs options w = bracketed_step env bs options w"
  unfolding executeSyncStrategy_def
  by (simp only: assms if_False)
     (simp add: restore_stash_def io_defs split: prod.splits)

text \<open>
  C2. When \<^verbatim>\<open>executeSyncStrategy\<close> has created a stash, then whatever the bracketed
  step does (it completes, or it throws a conflict, a rejected push or the user's
  cancellation): the outcome of the invocation is the outcome of the bracketed step,
  error or not; the calls are the stash, the calls of the bracketed step, and one pop,
  last; exactly one pop is called; and a failing pop adds the one warning and nothing
  else, a succeeding pop adds none.
\<close>

theorem executeSyncStrategy_stash_pairing:
  assumes "bs_hasUncommittedChanges bs" and "bs_status bs \<noteq> Ahead"
    and "isInitialized env" and "stash_push_result env = Inr ()"
  shows "fst (executeSyncStrategy env bs options w)
           = fst (bracketed_step env bs options (after_stash w))
       \<and> calls_of (executeSyncStrategy env bs options) w
           = GitStash [''push'', ''-m'', ''easygit-sync-auto-stash'']
               # calls_of (bracketed_step env bs options) (after_stash w)
               @ [GitStash [''pop'']]
       \<and> length (filter (\<lambda>c. c = GitStash [''pop''])
                   (calls_of (executeSyncStrategy env bs options) w)) = 1
       \<and> warnings_of (executeSyncStrategy env bs options) w
           = (case stash_pop_result env of
                Inl e \<Rightarrow> [''Warning: Could not restore stashed changes automatically'']
              | Inr u \<Rightarrow> [])"
proof -
  obtain t tl where t: "list_all step_event t"
    and ev_step: "events_of (bracketed_step env bs options) (after_stash w) = t"
    and res: "fst (executeSyncStrategy env bs options w)
               = fst (bracketed_step env bs options (after_stash w))"
    and ev: "events_of (executeSyncStrategy env bs options) w
               = [ConsoleLog ''Stashing uncommitted changes...'',
                  Call (GitStash [''push'', ''-m'', ''easygit-sync-auto-stash''])] @ t
                 @ [ConsoleLog ''Restoring stashed changes...'', Call (GitStash [''pop''])] @ tl"
    and tl: "calls tl = []"
      "warnings tl
               = (case stash_pop_result env of
                    Inl e \<Rightarrow> [''Warning: Could not restore stashed changes automatically'']
                  | Inr u \<Rightarrow> [])"
    using executeSyncStrategy_stashed [OF assms, of options w] by blast
  have "calls_of (executeSyncStrategy env bs options) w
           = GitStash [''push'', ''-m'', ''easygit-sync-auto-stash'']
               # calls_of (bracketed_step env bs options) (after_stash w)
               @ [GitStash [''pop'']]"
    by (simp add: calls_of_def ev ev_step tl(1))
  moreover have "length (filter (\<lambda>c. c = GitStash [''pop''])
                   (calls_of (executeSyncStrategy env bs options) w)) = 1"
    using step_events_no_pop [OF t] by (simp add: calls_of_def ev tl(1))
  moreover have "warnings_of (executeSyncStrategy env bs options) w
           = (case stash_pop_result env of
                Inl e \<Rightarrow> [''Warning: Could not restore stashed changes automatically'']
              | Inr u \<Rightarrow> [])"
    using step_events_no_warning [OF t] by (simp add: warnings_of_def ev tl(2))
  ultimately show ?thesis using res by blast
qed

theorem executeSyncStrategy_stash_pairing_witness:
  "bs_hasUncommittedChanges (main_state 2 3 True)
   \<and> bs_status (main_state 2 3 True) \<noteq> Ahead
   \<and> isInitialized cancel_env
   \<and> stash_push_result cancel_env = Inr ()
   \<and> fst (executeSyncStrategy cancel_env (main_state 2 3 True) plain_options start_world)
       = Inl (Error ''Sync cancelled by user'')
   \<and> calls_of (executeSyncStrategy cancel_env (main_state 2 3 True) plain_options) start_world
       = [GitStash [''push'', ''-m'', ''easygit-sync-auto-stash''], PromptStrategy,
          GitStash [''pop'']]
   \<and> warnings_of (executeSyncStrategy cancel_env (main_state 2 3 True) plain_options)
         start_world
       = [''Warning: Could not restore stashed changes automatically'']"
  using executeSyncStrategy_stash_pairing
          [of "main_state 2 3 True" cancel_env plain_options start_world]
  by (simp add: cancel_env_def example_defs handler_defs observe_defs io_defs)

text \<open>
  C4. \<^verbatim>\<open>executeSyncStrategy\<close> calls \<^verbatim>\<open>git stash\<close> if and only if the working tree is
  dirty and the classification is not ahead; the stash is then its first call, before
  any call of the bracketed step; and a dirty tree with the classification ahead is
  never stashed.
\<close>

theorem executeSyncStrategy_stash_decision:
  assumes "isInitialized env"
  shows "(filter is_stash (calls_of (executeSyncStrategy env bs options) w) \<noteq> []
            \<longleftrightarrow> bs_hasUncommittedChanges bs \<and> bs_status bs \<noteq> Ahead)
       \<and> (bs_hasUncommittedChanges bs \<and> bs_status bs \<noteq> Ahead \<longrightarrow>
            take 1 (calls_of (executeSyncStrategy env bs options) w)
              = [GitStash [''push'', ''-m'', ''easygit-sync-auto-stash'']])
       \<and> (bs_hasUncommittedChanges bs \<and> bs_status bs = Ahead \<longrightarrow>
            filter is_stash (calls_of (executeSyncStrategy env bs options) w) = [])"
proof (cases "bs_hasUncommittedChanges bs \<and> bs_status bs \<noteq> Ahead")
  case False
  obtain t where t: "trace (snd (bracketed_step env bs options w)) = trace w @ t"
      "list_all step_event t"
    using bracketed_step_run [of env bs options w] by blast
  have "calls_of (executeSyncStrategy env bs options) w = calls t"
    using t(1) by (simp add: executeSyncStrategy_unstashed [OF False] calls_of_def events_of_def)
  with False step_events_no_stash [OF t(2)] show ?thesis by auto
next
  case True
  have first: "\<exists>rest. calls_of (executeSyncStrategy env bs options) w
                 = GitStash [''push'', ''-m'', ''easygit-sync-auto-stash''] # rest"
  proof (cases "stash_push_result env")
    case (Inl e)
    with True assms show ?thesis
      by (simp add: executeSyncStrategy_def stash_def io_defs calls_of_def events_of_def)
  next
    case (Inr u)
    with True assms executeSyncStrategy_stashed [of bs env options w]
    show ?thesis by (auto simp: calls_of_def)
  qed
  with True show ?thesis by auto
qed

theorem executeSyncStrategy_stash_decision_witness:
  "isInitialized quiet_env
   \<and> calls_of (executeSyncStrategy quiet_env (main_state 0 2 True) plain_options) start_world
       = [GitStash [''push'', ''-m'', ''easygit-sync-auto-stash''], ConfigGetSyncStrategy,
          GitRebase [''origin/main''], GitStash [''pop'']]
   \<and> filter is_stash
         (calls_of (executeSyncStrategy quiet_env (main_state 3 0 True) plain_options)
            start_world) = []
   \<and> filter is_stash
         (calls_of (executeSyncStrategy quiet_env (main_state 0 2 False) plain_options)
            start_world) = []"
  using executeSyncStrategy_stash_decision
          [of quiet_env "main_state 0 2 True" plain_options start_world]
        executeSyncStrategy_stash_decision
          [of quiet_env "main_state 3 0 True" plain_options start_world]
        executeSyncStrategy_stash_decision
          [of quiet_env "main_state 0 2 False" plain_options start_world]
  by (simp add: example_defs handler_defs repository_defs observe_defs io_defs
        executeSyncStrategy_def restore_stash_def)

subsection \<open>A conflict in the diverged state\<close>

text \<open>
  C7. In the diverged state, when the integration step (the rebase, or the merge)
  fails with a conflict, the handler throws its conflict error after the one
  integration call and without any push; and the whole of \<^verbatim>\<open>executeSyncStrategy\<close>
  for that choice ends with the conflict error and contains no push call.
\<close>

theorem diverged_conflict_never_pushes:
  assumes "str_includes (message e) ''CONFLICT''"
  shows "(rebase_result env = Inl e \<longrightarrow>
            fst (handleRebaseDiverged env bs w)
              = Inl (Error ''Rebase conflicts need to be resolved'')
            \<and> calls_of (handleRebaseDiverged env bs) w = [GitRebase [bs_remoteBranch bs]])
       \<and> (merge_result env = Inl e \<longrightarrow>
            fst (handleMergeDiverged env bs w)
              = Inl (Error ''Merge conflicts need to be resolved'')
            \<and> calls_of (handleMergeDiverged env bs) w = [GitMerge [bs_remoteBranch bs]])
       \<and> (bs_status bs = Diverged \<and> isInitialized env \<and> stash_push_result env = Inr ()
            \<and> prompt_strategy env = Inr ChooseRebase \<and> rebase_result env = Inl e \<longrightarrow>
            fst (executeSyncStrategy env bs options w)
              = Inl (Error ''Rebase conflicts need to be resolved'')
            \<and> filter is_push (calls_of (executeSyncStrategy env bs options) w) = [])
       \<and> (bs_status bs = Diverged \<and> isInitialized env \<and> stash_push_result env = Inr ()
            \<and> prompt_strategy env = Inr ChooseMerge \<and> merge_result env = Inl e \<longrightarrow>
            fst (executeSyncStrategy env bs options w)
              = Inl (Error ''Merge conflicts need to be resolved'')
            \<and> filter is_push (calls_of (executeSyncStrategy env bs options) w) = [])"
proof -
  have rebase: "fst (handleRebaseDiverged env bs w)
              = Inl (Error ''Rebase conflicts need to be resolved'')
            \<and> calls_of (handleRebaseDiverged env bs) w = [GitRebase [bs_remoteBranch bs]]"
    if "rebase_result env = Inl e"
    using that assms
    by (simp add: handleRebaseDiverged_def io_defs calls_of_def events_of_def)
  have merge: "fst (handleMergeDiverged env bs w)
              = Inl (Error ''Merge conflicts need to be resolved'')
            \<and> calls_of (handleMergeDiverged env bs) w = [GitMerge [bs_remoteBranch bs]]"
    if "merge_result env = Inl e"
    using that assms
    by (simp add: handleMergeDiverged_def io_defs calls_of_def events_of_def)
  have exec_rebase: "fst (executeSyncStrategy env bs options w)
              = Inl (Error ''Rebase conflicts need to be resolved'')
            \<and> filter is_push (calls_of (executeSyncStrategy env bs options) w) = []"
    if "bs_status bs = Diverged" "isInitialized env" "stash_push_result env = Inr ()"
       "prompt_strategy env = Inr ChooseRebase" "rebase_result env = Inl e"
    using that assms
    by (cases "stash_pop_result env"; cases "bs_hasUncommittedChanges bs")
       (simp_all add: executeSyncStrategy_def bracketed_step_def handleDiverged_def
          handleRebaseDiverged_def restore_stash_def stash_def stashPop_def
          io_defs calls_of_def events_of_def)
  have exec_merge: "fst (executeSyncStrategy env bs options w)
              = Inl (Error ''Merge conflicts need to be resolved'')
            \<and> filter is_push (calls_of (executeSyncStrategy env bs options) w) = []"
    if "bs_status bs = Diverged" "isInitialized env" "stash_push_result env = Inr ()"
       "prompt_strategy env = Inr ChooseMerge" "merge_result env = Inl e"
    using that assms
    by (cases "stash_pop_result env"; cases "bs_hasUncommittedChanges bs")
       (simp_all add: executeSyncStrategy_def bracketed_step_def handleDiverged_def
          handleMergeDiverged_def restore_stash_def stash_def stashPop_def
          io_defs calls_of_def events_of_def)
  show ?thesis
    using rebase merge exec_rebase exec_merge by blast
qed

theorem diverged_conflict_never_pushes_witness:
  "str_includes (message (Error ''CONFLICT (content): Merge conflict in README.md''))
     ''CONFLICT''
   \<and> bs_status (main_state 2 3 True) = Diverged \<and> bs_status (main_state 2 3 False) = Diverged
   \<and> isInitialized conflict_env \<and> stash_push_result conflict_env = Inr ()
   \<and> prompt_strategy conflict_env = Inr ChooseRebase
   \<and> rebase_result conflict_env
       = Inl (Error ''CONFLICT (content): Merge conflict in README.md'')
   \<and> isInitialized merge_conflict_env \<and> stash_push_result merge_conflict_env = Inr ()
   \<and> prompt_strategy merge_conflict_env = Inr ChooseMerge
   \<and> merge_result merge_conflict_env
       = Inl (Error ''CONFLICT (content): Merge conflict in README.md'')
   \<and> fst (executeSyncStrategy conflict_env (main_state 2 3 True) plain_options start_world)
       = Inl (Error ''Rebase conflicts need to be resolved'')
   \<and> filter is_push
         (calls_of (executeSyncStrategy conflict_env (main_state 2 3 True) plain_options)
            start_world) = []
   \<and> fst (executeSyncStrategy merge_conflict_env (main_state 2 3 False) plain_options
            start_world)
       = Inl (Error ''Merge conflicts need to be resolved'')
   \<and> filter is_push
         (calls_of (executeSyncStrategy merge_conflict_env (main_state 2 3 False) plain_options)
            start_world) = []"
  using diverged_conflict_never_pushes
          [of "Error ''CONFLICT (content): Merge conflict in README.md''" conflict_env
              "main_state 2 3 True" start_world plain_options]
        diverged_conflict_never_pushes
          [of "Error ''CONFLICT (content): Merge conflict in README.md''" merge_conflict_env
              "main_state 2 3 False" start_world plain_options]
  by (simp add: conflict_env_def merge_conflict_env_def example_defs)

subsection \<open>The fetch and the analysis\<close>

lemma emits_only_finally [intro!]:
  assumes "emits_only P m" and "emits_only P k"
  shows "emits_only P (io_finally m k)"
  unfolding emits_only_def
proof
  fix w
  obtain t where t: "trace (snd (m w)) = trace w @ t" "list_all P t"
    using assms(1) unfolding emits_only_def by blast
  obtain t' where t': "trace (snd (k (snd (m w)))) = trace (snd (m w)) @ t'" "list_all P t'"
    using assms(2) unfolding emits_only_def by blast
  show "\<exists>t. trace (snd (io_finally m k w)) = trace w @ t \<and> list_all P t"
    using t t' by (cases "m w"; cases "k (snd (m w))") (auto simp: io_finally_def split: sum.splits)
qed

lemma io_bind_throw [simp]: "io_bind (io_throw e) f = io_throw e"
  by (rule ext) (simp add: io_bind_def io_throw_def)

lemma emits_only_getBranches [intro!]:
  "P (Call (GitBranch [''--all''])) \<Longrightarrow> emits_only P (getBranches env)"
  unfolding getBranches_def by auto

lemma emits_only_getRemotes [intro!]:
  "P (Call GitGetRemotes) \<Longrightarrow> emits_only P (getRemotes env)"
  unfolding getRemotes_def by auto

lemma emits_only_fetch [intro!]:
  "P (Call (GitFetch r)) \<Longrightarrow> emits_only P (fetch env r)"
  by (cases "fetch_result env")
     (simp_all add: emits_only_def fetch_def git_fetch_def external_def io_throw_def)

lemma emits_only_stash [intro!]:
  "(\<And>args. P (Call (GitStash args))) \<Longrightarrow> emits_only P (stash env m)"
  unfolding stash_def by auto

lemma emits_only_stashPop [intro!]:
  "(\<And>args. P (Call (GitStash args))) \<Longrightarrow> emits_only P (stashPop env)"
  unfolding stashPop_def by auto

lemma emits_only_checkNetworkConnectivity:
  "P (Call GitGetRemotes) \<Longrightarrow> (\<And>args. P (Call (GitRaw args))) \<Longrightarrow> (\<And>s. P (ConsoleLog s))
     \<Longrightarrow> emits_only P (checkNetworkConnectivity env r)"
  unfolding checkNetworkConnectivity_def options_at_line_90_def io_bind_throw
  by (auto simp del: find_None_iff)

lemma emits_only_analyzeBranchState:
  "P (Call GitStatus) \<Longrightarrow> P (Call (GitBranch [''--all'']))
     \<Longrightarrow> emits_only P (analyzeBranchState env cb r)"
  unfolding analyzeBranchState_def Let_def by auto

lemma emits_only_showDryRun:
  "P (Call ConfigGetSyncStrategy) \<Longrightarrow> (\<And>s. P (ConsoleLog s))
     \<Longrightarrow> emits_only P (showDryRun env bs options)"
  unfolding showDryRun_def by (auto split: sync_status.split)

lemma emits_only_weaken:
  assumes "emits_only P m" and "\<And>ev. P ev \<Longrightarrow> Q ev"
  shows "emits_only Q m"
  unfolding emits_only_def
proof
  fix w
  obtain t where t: "trace (snd (m w)) = trace w @ t" "list_all P t"
    using assms(1) unfolding emits_only_def by blast
  from t(2) assms(2) have "list_all Q t" by (simp add: list_all_iff)
  with t(1) show "\<exists>t. trace (snd (m w)) = trace w @ t \<and> list_all Q t" by blast
qed

lemma emits_only_executeSyncStrategy:
  "(\<And>ev. step_event ev \<Longrightarrow> P ev) \<Longrightarrow> (\<And>args. P (Call (GitStash args)))
     \<Longrightarrow> (\<And>s. P (ConsoleLog s)) \<Longrightarrow> (\<And>s. P (ConsoleWarn s))
     \<Longrightarrow> emits_only P (executeSyncStrategy env bs options)"
  unfolding executeSyncStrategy_def restore_stash_def
  by (auto intro: emits_only_weaken [OF bracketed_step_events])

lemma execute_dryRun_events:
  assumes "opt_dryRun options"
  shows "emits_only not_fetch (execute env options)"
  unfolding execute_def Let_def using assms
  by (auto intro!: emits_only_analyzeBranchState emits_only_showDryRun split: option.split)

lemma emits_only_events:
  assumes "emits_only P m"
  shows "trace (snd (m w)) = trace w @ events_of m w" and "list_all P (events_of m w)"
proof -
  obtain t where "trace (snd (m w)) = trace w @ t" "list_all P t"
    using assms unfolding emits_only_def by blast
  then show "trace (snd (m w)) = trace w @ events_of m w" and "list_all P (events_of m w)"
    by (simp_all add: events_of_def)
qed

lemma not_fetch_calls: "list_all not_fetch t \<Longrightarrow> filter is_fetch (calls t) = []"
  by (induction t rule: calls.induct) simp_all

lemma events_of_bind:
  assumes "emits_only P m" and "\<And>x. emits_only P (f x)"
  shows "events_of (io_bind m f) w
           = events_of m w
             @ (case fst (m w) of Inl e \<Rightarrow> [] | Inr x \<Rightarrow> events_of (f x) (snd (m w)))"
proof -
  obtain q v where mw: "m w = (q, v)" by (cases "m w")
  have tm: "trace v = trace w @ events_of m w"
    using emits_only_events(1) [OF assms(1), of w] mw by simp
  show ?thesis
  proof (cases q)
    case (Inl e)
    with mw show ?thesis by (simp add: events_of_def io_bind_def)
  next
    case (Inr x)
    have "trace (snd (f x v)) = trace v @ events_of (f x) v"
      by (rule emits_only_events(1) [OF assms(2)])
    with mw Inr tm show ?thesis
      by (simp add: events_of_def [of "io_bind m f"] io_bind_def)
  qed
qed

lemma io_reassociate:
  "io_then a (io_bind b (\<lambda>x. io_then (c x) (io_then d (k x))))
     = io_bind (io_then a (io_bind b (\<lambda>x. io_then (c x) (io_then d (io_return x))))) k"
  by (rule ext) (simp add: io_then_def io_bind_def io_return_def split: sum.splits prod.splits)

lemma not_branch_calls: "list_all not_branch t \<Longrightarrow> GitBranch [''--all''] \<notin> set (calls t)"
  by (induction t rule: calls.induct) auto

lemma fetch_run:
  assumes "isInitialized env"
  shows "events_of (fetch env r) w = [Call (GitFetch r)]"
    and "fst (fetch env r w) = fetch_result env"
    and "fetch_result env = Inr u \<Longrightarrow> fetched (snd (fetch env r w))"
  using assms
  by (cases "fetch_result env";
      simp add: fetch_def git_fetch_def external_def events_of_def)+

lemma analyzeBranchState_run:
  "calls_of (analyzeBranchState env cb r) w = [GitStatus, GitBranch [''--all'']]
   \<or> (GitBranch [''--all''] \<notin> set (calls_of (analyzeBranchState env cb r) w)
      \<and> (\<exists>e. fst (analyzeBranchState env cb r w) = Inl e))"
  by (simp add: analyzeBranchState_def getStatus_def getBranches_def git_status_def io_defs
        calls_of_def events_of_def Let_def split: sum.splits)

lemma execute_fetch_first:
  assumes "\<not> opt_dryRun options"
    and "GitBranch [''--all''] \<in> set (calls_of (execute env options) w)"
  shows "fetch_result env = Inr ()
       \<and> (\<exists>pre post. calls_of (execute env options) w
             = pre @ GitFetch (opt_remote options) # GitStatus # GitBranch [''--all''] # post
             \<and> GitBranch [''--all''] \<notin> set pre)"
proof -
  define pre where "pre =
    io_then (console_log ''Analyzing synchronization state...'')
      (io_bind
         (case opt_branch options of
            Some b \<Rightarrow> if b \<noteq> [] then io_return b else getCurrentBranch env
          | None \<Rightarrow> getCurrentBranch env)
         (\<lambda>currentBranch.
            io_then (checkNetworkConnectivity env (opt_remote options))
              (io_then (console_log (''Fetching from '' @ opt_remote options @ ''...''))
                 (io_return currentBranch))))"
  define rest where "rest currentBranch =
    io_then (fetch env (opt_remote options))
      (io_bind (analyzeBranchState env currentBranch (opt_remote options))
         (\<lambda>branchState. executeSyncStrategy env branchState options))" for currentBranch
  have repo: "isInitialized env"
  proof (rule ccontr)
    assume "\<not> isInitialized env"
    then have "calls_of (execute env options) w = []"
      by (simp add: execute_def isRepository_def io_throw_def calls_of_def events_of_def)
    with assms(2) show False by simp
  qed
  have has: "hasGitRepo env"
  proof (rule ccontr)
    assume "\<not> hasGitRepo env"
    then have "calls_of (execute env options) w = []"
      by (simp add: execute_def isRepository_def io_throw_def calls_of_def events_of_def)
    with assms(2) show False by simp
  qed
  have "execute env options =
    io_then (console_log ''Analyzing synchronization state...'')
      (io_bind
         (case opt_branch options of
            Some b \<Rightarrow> if b \<noteq> [] then io_return b else getCurrentBranch env
          | None \<Rightarrow> getCurrentBranch env)
         (\<lambda>currentBranch.
            io_then (checkNetworkConnectivity env (opt_remote options))
              (io_then (console_log (''Fetching from '' @ opt_remote options @ ''...''))
                 (rest currentBranch))))"
    using assms(1) repo has
    by (simp add: execute_def isRepository_def Let_def rest_def)
  also have "\<dots> = io_bind pre rest"
    unfolding pre_def by (rule io_reassociate)
  finally have unfold: "execute env options = io_bind pre rest" .
  have all_pre: "emits_only (\<lambda>ev. True) pre"
    unfolding pre_def
    by (auto intro!: emits_only_checkNetworkConnectivity split: option.split)
  have nb_pre: "emits_only not_branch pre"
    unfolding pre_def
    by (auto intro!: emits_only_checkNetworkConnectivity split: option.split)
  have all_an: "emits_only (\<lambda>ev. True) (analyzeBranchState env cb (opt_remote options))" for cb
    by (rule emits_only_analyzeBranchState) simp_all
  have all_ex: "emits_only (\<lambda>ev. True) (executeSyncStrategy env bs options)" for bs
    by (rule emits_only_executeSyncStrategy) simp_all
  have all_tail: "emits_only (\<lambda>ev. True) (io_bind (analyzeBranchState env cb (opt_remote options))
         (\<lambda>branchState. executeSyncStrategy env branchState options))" for cb
    using all_an all_ex by auto
  have all_rest: "emits_only (\<lambda>ev. True) (rest cb)" for cb
    unfolding rest_def by (rule emits_only_then [OF emits_only_fetch all_tail]) simp
  have ev1: "events_of (execute env options) w
      = events_of pre w
        @ (case fst (pre w) of Inl e \<Rightarrow> [] | Inr cb \<Rightarrow> events_of (rest cb) (snd (pre w)))"
    unfolding unfold by (rule events_of_bind [OF all_pre all_rest])
  have no_pre: "GitBranch [''--all''] \<notin> set (calls (events_of pre w))"
    by (rule not_branch_calls) (rule emits_only_events(2) [OF nb_pre])
  obtain cb where cb: "fst (pre w) = Inr cb"
    using assms(2) no_pre unfolding calls_of_def ev1 by (cases "fst (pre w)") auto
  define w1 where "w1 = snd (pre w)"
  have ev2: "events_of (rest cb) w1
      = [Call (GitFetch (opt_remote options))]
        @ (case fetch_result env of Inl e \<Rightarrow> []
           | Inr u \<Rightarrow> events_of (io_bind (analyzeBranchState env cb (opt_remote options))
                        (\<lambda>branchState. executeSyncStrategy env branchState options))
                        (snd (fetch env (opt_remote options) w1)))"
    unfolding rest_def io_then_def
    using events_of_bind [of "\<lambda>ev. True" "fetch env (opt_remote options)"
             "\<lambda>_. io_bind (analyzeBranchState env cb (opt_remote options))
                     (\<lambda>branchState. executeSyncStrategy env branchState options)" w1]
          all_tail fetch_run [OF repo, where r = "opt_remote options" and w = w1]
    by (auto intro!: emits_only_fetch)
  have fetched_ok: "fetch_result env = Inr ()"
  proof (cases "fetch_result env")
    case (Inl e)
    with assms(2) no_pre show ?thesis
      unfolding calls_of_def ev1 cb w1_def [symmetric] by (simp add: ev2)
  next
    case (Inr u)
    then show ?thesis by simp
  qed
  define w2 where "w2 = snd (fetch env (opt_remote options) w1)"
  define post where "post =
    (case fst (analyzeBranchState env cb (opt_remote options) w2) of
       Inl e \<Rightarrow> []
     | Inr bs \<Rightarrow> calls_of (executeSyncStrategy env bs options)
                   (snd (analyzeBranchState env cb (opt_remote options) w2)))"
  have ev3: "calls_of (io_bind (analyzeBranchState env cb (opt_remote options))
                        (\<lambda>branchState. executeSyncStrategy env branchState options)) w2
      = calls_of (analyzeBranchState env cb (opt_remote options)) w2 @ post"
    unfolding calls_of_def post_def events_of_bind [OF all_an all_ex]
    by (cases "fst (analyzeBranchState env cb (opt_remote options) w2)") simp_all
  have total: "calls_of (execute env options) w
      = calls (events_of pre w) @ GitFetch (opt_remote options)
          # calls_of (analyzeBranchState env cb (opt_remote options)) w2 @ post"
    using ev3 unfolding calls_of_def ev1 cb w1_def [symmetric]
    by (simp add: ev2 fetched_ok w2_def)
  from analyzeBranchState_run [of env cb "opt_remote options" w2]
  have an: "calls_of (analyzeBranchState env cb (opt_remote options)) w2
              = [GitStatus, GitBranch [''--all'']]"
  proof
    assume "GitBranch [''--all''] \<notin> set (calls_of (analyzeBranchState env cb (opt_remote options)) w2)
      \<and> (\<exists>e. fst (analyzeBranchState env cb (opt_remote options) w2) = Inl e)"
    then have "GitBranch [''--all''] \<notin> set (calls_of (execute env options) w)"
      using no_pre unfolding total post_def by auto
    with assms(2) show ?thesis by simp
  qed
  show ?thesis
    using fetched_ok total an no_pre by auto
qed


text \<open>After a successful fetch the status known before it plays no part.\<close>

lemma agree_return [intro!, simp]: "agree (io_return x) (io_return x)"
  by (simp add: agree_def io_return_def)

lemma agree_throw [intro!, simp]: "agree (io_throw e) (io_throw e)"
  by (simp add: agree_def io_throw_def)

lemma agree_log [intro!, simp]: "agree (console_log s) (console_log s)"
  by (simp add: agree_def console_log_def emit_def)

lemma agree_warn [intro!, simp]: "agree (console_warn s) (console_warn s)"
  by (simp add: agree_def console_warn_def emit_def)

lemma agree_external [intro!, simp]: "agree (external c a) (external c a)"
  by (simp add: agree_def external_def)

lemma agreeD:
  assumes "agree m m'" and "fetched w" and "m w = (r, w')"
  shows "m' w = (r, w')" and "fetched w'"
proof -
  from assms(1,2) have "m w = m' w" and "fetched (snd (m w))"
    unfolding agree_def by blast+
  with assms(3) show "m' w = (r, w')" and "fetched w'" by simp_all
qed

lemma agreeI:
  assumes "\<And>w r w'. fetched w \<Longrightarrow> m w = (r, w') \<Longrightarrow> m' w = (r, w') \<and> fetched w'"
  shows "agree m m'"
  unfolding agree_def
proof (intro allI impI)
  fix w :: world assume "fetched w"
  then show "m w = m' w \<and> fetched (snd (m w))"
    using assms [of w "fst (m w)" "snd (m w)"] by simp
qed

lemma agree_bind [intro!]:
  assumes "agree m m'" and "\<And>x. agree (f x) (f' x)"
  shows "agree (io_bind m f) (io_bind m' f')"
proof (rule agreeI)
  fix w :: world and r w'
  assume w: "fetched w" and run: "io_bind m f w = (r, w')"
  obtain q v where mw: "m w = (q, v)" by (cases "m w")
  note m' = agreeD [OF assms(1) w mw]
  show "io_bind m' f' w = (r, w') \<and> fetched w'"
  proof (cases q)
    case (Inl e)
    with mw run have "r = Inl e" "w' = v" by (simp_all add: io_bind_def)
    with Inl m' show ?thesis by (simp add: io_bind_def)
  next
    case (Inr x)
    with mw run have "f x v = (r, w')" by (simp add: io_bind_def)
    from agreeD [OF assms(2) m'(2) this] Inr m'(1) show ?thesis
      by (simp add: io_bind_def)
  qed
qed

lemma agree_then [intro!]: "agree m m' \<Longrightarrow> agree k k' \<Longrightarrow> agree (io_then m k) (io_then m' k')"
  by (simp add: io_then_def agree_bind)

lemma agree_catch [intro!]:
  assumes "agree m m'" and "\<And>e. agree (h e) (h' e)"
  shows "agree (io_catch m h) (io_catch m' h')"
proof (rule agreeI)
  fix w :: world and r w'
  assume w: "fetched w" and run: "io_catch m h w = (r, w')"
  obtain q v where mw: "m w = (q, v)" by (cases "m w")
  note m' = agreeD [OF assms(1) w mw]
  show "io_catch m' h' w = (r, w') \<and> fetched w'"
  proof (cases q)
    case (Inr x)
    with mw run have "r = Inr x" "w' = v" by (simp_all add: io_catch_def)
    with Inr m' show ?thesis by (simp add: io_catch_def)
  next
    case (Inl e)
    with mw run have "h e v = (r, w')" by (simp add: io_catch_def)
    from agreeD [OF assms(2) m'(2) this] Inl m'(1) show ?thesis
      by (simp add: io_catch_def)
  qed
qed

lemma agree_finally [intro!]:
  assumes "agree m m'" and "agree k k'"
  shows "agree (io_finally m k) (io_finally m' k')"
proof (rule agreeI)
  fix w :: world and r w'
  assume w: "fetched w" and run: "io_finally m k w = (r, w')"
  obtain q v where mw: "m w = (q, v)" by (cases "m w")
  note m' = agreeD [OF assms(1) w mw]
  obtain q' v' where kv: "k v = (q', v')" by (cases "k v")
  note k' = agreeD [OF assms(2) m'(2) kv]
  show "io_finally m' k' w = (r, w') \<and> fetched w'"
    using mw m' kv k' run by (cases q') (auto simp: io_finally_def)
qed

lemma agree_if [intro!]:
  "(c \<Longrightarrow> agree a a') \<Longrightarrow> (\<not> c \<Longrightarrow> agree b b') \<Longrightarrow> agree (if c then a else b) (if c then a' else b')"
  by simp

lemma agree_getStatus [intro!, simp]:
  "agree (getStatus (env\<lparr>status_local := x\<rparr>)) (getStatus env)"
  by (simp add: agree_def getStatus_def git_status_def external_def io_throw_def)

lemma agree_getCurrentBranch [intro!, simp]:
  "agree (getCurrentBranch (env\<lparr>status_local := x\<rparr>)) (getCurrentBranch env)"
  unfolding getCurrentBranch_def by auto

lemma agree_push [intro!, simp]:
  "agree (push (env\<lparr>status_local := x\<rparr>) r b) (push env r b)"
  unfolding push_def by auto

lemma agree_getSyncStrategy [intro!, simp]:
  "agree (getSyncStrategy (env\<lparr>status_local := x\<rparr>) options) (getSyncStrategy env options)"
  unfolding getSyncStrategy_def by auto

lemma agree_bracketed_step:
  "agree (bracketed_step (env\<lparr>status_local := x\<rparr>) bs options) (bracketed_step env bs options)"
  unfolding bracketed_step_def handleUpToDate_def handleAhead_def handleBehind_def
    handleDiverged_def handleNewBranch_def handleRebaseDiverged_def handleMergeDiverged_def
    handleForcePushDiverged_def
  by (cases "bs_status bs") (auto split: divergence_choice.split)

lemma agree_executeSyncStrategy:
  "agree (executeSyncStrategy (env\<lparr>status_local := x\<rparr>) bs options)
         (executeSyncStrategy env bs options)"
  unfolding executeSyncStrategy_def restore_stash_def stash_def stashPop_def
  by (auto intro: agree_bracketed_step)

lemma agree_analyzeBranchState:
  "agree (analyzeBranchState (env\<lparr>status_local := x\<rparr>) cb r) (analyzeBranchState env cb r)"
  unfolding analyzeBranchState_def getBranches_def Let_def
  by auto

lemma checkNetworkConnectivity_status_local:
  "checkNetworkConnectivity (env\<lparr>status_local := x\<rparr>) r = checkNetworkConnectivity env r"
  unfolding checkNetworkConnectivity_def getRemotes_def options_at_line_90_def io_bind_throw
  by simp

lemma getCurrentBranch_status_local:
  assumes "st_current s = st_current s'"
  shows "getCurrentBranch (env\<lparr>status_local := Inr s\<rparr>)
           = getCurrentBranch (env\<lparr>status_local := Inr s'\<rparr>)"
  using assms
  by (intro ext)
     (simp add: getCurrentBranch_def getStatus_def git_status_def io_defs split: sum.splits)

lemma after_fetch_status_local:
  "io_then (fetch (env\<lparr>status_local := x\<rparr>) r)
     (io_bind (analyzeBranchState (env\<lparr>status_local := x\<rparr>) cb r)
        (\<lambda>bs. executeSyncStrategy (env\<lparr>status_local := x\<rparr>) bs options))
   = io_then (fetch env r)
       (io_bind (analyzeBranchState env cb r) (\<lambda>bs. executeSyncStrategy env bs options))"
proof (rule ext)
  fix w :: world
  have tail: "agree
      (io_bind (analyzeBranchState (env\<lparr>status_local := x\<rparr>) cb r)
         (\<lambda>bs. executeSyncStrategy (env\<lparr>status_local := x\<rparr>) bs options))
      (io_bind (analyzeBranchState env cb r) (\<lambda>bs. executeSyncStrategy env bs options))"
    by (rule agree_bind [OF agree_analyzeBranchState agree_executeSyncStrategy])
  have same: "fetch (env\<lparr>status_local := x\<rparr>) r w = fetch env r w"
    by (simp add: fetch_def git_fetch_def)
  obtain q v where f: "fetch env r w = (q, v)" by (cases "fetch env r w")
  show "io_then (fetch (env\<lparr>status_local := x\<rparr>) r)
     (io_bind (analyzeBranchState (env\<lparr>status_local := x\<rparr>) cb r)
        (\<lambda>bs. executeSyncStrategy (env\<lparr>status_local := x\<rparr>) bs options)) w
   = io_then (fetch env r)
       (io_bind (analyzeBranchState env cb r) (\<lambda>bs. executeSyncStrategy env bs options)) w"
  proof (cases q)
    case (Inl e)
    with f same show ?thesis by (simp add: io_then_def io_bind_def)
  next
    case (Inr u)
    with f have "fetched v"
      by (cases "fetch_result env")
         (auto simp: fetch_def git_fetch_def external_def io_throw_def split: if_splits)
    with tail have "io_bind (analyzeBranchState (env\<lparr>status_local := x\<rparr>) cb r)
         (\<lambda>bs. executeSyncStrategy (env\<lparr>status_local := x\<rparr>) bs options) v
      = io_bind (analyzeBranchState env cb r) (\<lambda>bs. executeSyncStrategy env bs options) v"
      unfolding agree_def by blast
    with f same Inr show ?thesis by (simp add: io_then_def io_bind_def [of "fetch _ _"])
  qed
qed

lemma execute_ignores_stale_counts:
  assumes "\<not> opt_dryRun options" and "st_current s = st_current s'"
  shows "execute (env\<lparr>status_local := Inr s\<rparr>) options w
           = execute (env\<lparr>status_local := Inr s'\<rparr>) options w"
  unfolding execute_def Let_def getCurrentBranch_status_local [OF assms(2), of env]
  using assms(1)
  by (simp add: isRepository_def checkNetworkConnectivity_status_local
        after_fetch_status_local)


text \<open>
  The claim C5 as stated fails for a dry run: \<^verbatim>\<open>execute\<close> with \<^verbatim>\<open>--dry-run\<close>
  analyses the branch state and reports it without any fetch. Here the remote has two
  new commits, which a fetch would make known, and the report says up-to-date.
\<close>

theorem execute_dryRun_analyses_without_fetch:
  "opt_dryRun (plain_options\<lparr>opt_dryRun := True\<rparr>)
   \<and> fst (execute stale_env (plain_options\<lparr>opt_dryRun := True\<rparr>) start_world) = Inr ()
   \<and> calls_of (execute stale_env (plain_options\<lparr>opt_dryRun := True\<rparr>)) start_world
       = [GitStatus, GitStatus, GitBranch [''--all'']]
   \<and> take 3 (drop 6 (logs_of (execute stale_env (plain_options\<lparr>opt_dryRun := True\<rparr>))
                         start_world))
       = [''  Status: up-to-date'', ''  Ahead: 0 commits'', ''  Behind: 0 commits'']
   \<and> status_fetched stale_env = Inr (clean_status\<lparr>st_behind := 2\<rparr>)"
  by (simp add: stale_env_def example_defs execute_defs handler_defs repository_defs
        observe_defs io_defs numberToString_def natToString.simps or0_def)

text \<open>
  C5, amended. In every invocation without \<^verbatim>\<open>--dry-run\<close>: if the analysis gets as
  far as listing the branches, then the fetch of the remote has succeeded and its call
  comes immediately before the two calls of the analysis, with no listing of branches
  before it; and the outcome of the invocation does not depend on the counts or the
  dirtiness that \<^verbatim>\<open>git status\<close> would have answered before the fetch (only on the
  branch name it gave). In every invocation with \<^verbatim>\<open>--dry-run\<close> no fetch is called.
\<close>

theorem execute_fetch_before_analysis:
  "(\<not> opt_dryRun options \<longrightarrow>
      (GitBranch [''--all''] \<in> set (calls_of (execute env options) w) \<longrightarrow>
         fetch_result env = Inr ()
         \<and> (\<exists>pre post. calls_of (execute env options) w
               = pre @ GitFetch (opt_remote options) # GitStatus # GitBranch [''--all''] # post
               \<and> GitBranch [''--all''] \<notin> set pre))
      \<and> (st_current s = st_current s' \<longrightarrow>
           execute (env\<lparr>status_local := Inr s\<rparr>) options w
             = execute (env\<lparr>status_local := Inr s'\<rparr>) options w))
   \<and> (opt_dryRun options \<longrightarrow> filter is_fetch (calls_of (execute env options) w) = [])"
proof -
  have dry: "filter is_fetch (calls_of (execute env options) w) = []" if "opt_dryRun options"
    unfolding calls_of_def
    by (rule not_fetch_calls) (rule emits_only_events(2) [OF execute_dryRun_events [OF that]])
  show ?thesis
    using execute_fetch_first [of options env w]
          execute_ignores_stale_counts [of options s s' env w] dry
    by blast
qed

theorem execute_fetch_before_analysis_witness:
  "\<not> opt_dryRun plain_options
   \<and> GitBranch [''--all''] \<in> set (calls_of (execute stale_env plain_options) start_world)
   \<and> fetch_result stale_env = Inr ()
   \<and> calls_of (execute stale_env plain_options) start_world
       = [GitStatus, GitGetRemotes, GitRaw [''ls-remote'', ''--heads'', ''origin'']]
         @ GitFetch ''origin'' # GitStatus # GitBranch [''--all'']
         # [ConfigGetSyncStrategy, GitRebase [''origin/main'']]
   \<and> st_current clean_status
       = st_current (clean_status\<lparr>st_ahead := 5, st_behind := 7, st_isClean := False\<rparr>)
   \<and> execute (stale_env\<lparr>status_local := Inr clean_status\<rparr>) plain_options start_world
       = execute
           (stale_env\<lparr>status_local :=
              Inr (clean_status\<lparr>st_ahead := 5, st_behind := 7, st_isClean := False\<rparr>)\<rparr>)
           plain_options start_world
   \<and> opt_dryRun (plain_options\<lparr>opt_dryRun := True\<rparr>)
   \<and> filter is_fetch
         (calls_of (execute stale_env (plain_options\<lparr>opt_dryRun := True\<rparr>)) start_world) = []"
proof -
  have plain: "\<not> opt_dryRun plain_options"
    by (simp add: plain_options_def)
  have name: "st_current clean_status
       = st_current (clean_status\<lparr>st_ahead := 5, st_behind := 7, st_isClean := False\<rparr>)"
    by simp
  have run: "calls_of (execute stale_env plain_options) start_world
       = [GitStatus, GitGetRemotes, GitRaw [''ls-remote'', ''--heads'', ''origin'']]
         @ GitFetch ''origin'' # GitStatus # GitBranch [''--all'']
         # [ConfigGetSyncStrategy, GitRebase [''origin/main'']]"
    by (simp add: stale_env_def example_defs execute_defs handler_defs repository_defs
          observe_defs io_defs or0_def)
  have fetch_ok: "fetch_result stale_env = Inr ()"
    by (simp add: stale_env_def quiet_env_def)
  have same: "execute (stale_env\<lparr>status_local := Inr clean_status\<rparr>) plain_options start_world
       = execute
           (stale_env\<lparr>status_local :=
              Inr (clean_status\<lparr>st_ahead := 5, st_behind := 7, st_isClean := False\<rparr>)\<rparr>)
           plain_options start_world"
    using execute_fetch_before_analysis
            [of plain_options stale_env start_world clean_status
                "clean_status\<lparr>st_ahead := 5, st_behind := 7, st_isClean := False\<rparr>"]
          plain name
    by blast
  have dry: "filter is_fetch
         (calls_of (execute stale_env (plain_options\<lparr>opt_dryRun := True\<rparr>)) start_world) = []"
    using execute_fetch_before_analysis
            [of "plain_options\<lparr>opt_dryRun := True\<rparr>" stale_env start_world]
    by simp
  show ?thesis
    using plain name run fetch_ok same dry by simp
qed

subsection \<open>The offline queue\<close>

lemma read_queue_run:
  "read_queue env w
     = (Inr (existing_queue env w), w\<lparr>trace := trace w @ [Call FsReadFile]\<rparr>)"
  by (simp add: read_queue_def fs_readFile_def JSON_parse_def existing_queue_def io_defs
        split: option.split file_content.split)

lemma existing_queue_trace [simp]:
  "existing_queue env (w\<lparr>trace := t\<rparr>) = existing_queue env w"
  by (simp add: existing_queue_def split: option.split)

lemma status_answer_trace [simp]:
  "status_answer env (w\<lparr>trace := t\<rparr>) = status_answer env w"
  by (simp add: status_answer_def)

lemma getCurrentBranch_run:
  "getCurrentBranch env w =
     (if \<not> isInitialized env then (Inl (Error ''Repository not initialized''), w)
      else (map_sum id st_current (status_answer env w), w\<lparr>trace := trace w @ [Call GitStatus]\<rparr>))"
  by (cases "status_answer env w")
     (simp_all add: getCurrentBranch_def getStatus_def git_status_def status_answer_def io_defs)

lemma queueSyncOperation_run:
  \<open>queueSyncOperation env options w =
     (case mkdir_result env of
        Inl e \<Rightarrow>
          (Inr (), w\<lparr>trace := trace w @ [Call FsMkdir,
                      ConsoleWarn ''Warning: Could not queue sync operation'']\<rparr>)
      | Inr u \<Rightarrow>
          (if \<not> isInitialized env then
             (Inr (), w\<lparr>trace := trace w @ [Call FsMkdir, Call FsReadFile,
                         ConsoleWarn ''Warning: Could not queue sync operation'']\<rparr>)
           else
             (case status_answer env w of
                Inl e \<Rightarrow>
                  (Inr (), w\<lparr>trace := trace w @ [Call FsMkdir, Call FsReadFile, Call GitStatus,
                              ConsoleWarn ''Warning: Could not queue sync operation'']\<rparr>)
              | Inr st \<Rightarrow>
                  (case existing_queue env w of
                     JNotArray \<Rightarrow>
                       (Inr (), w\<lparr>trace := trace w @ [Call FsMkdir, Call FsReadFile,
                                   Call GitStatus,
                                   ConsoleWarn ''Warning: Could not queue sync operation'']\<rparr>)
                   | JArray entries \<Rightarrow>
                       (case writeFile_result env of
                          Inl e \<Rightarrow>
                            (Inr (), w\<lparr>trace := trace w @ [Call FsMkdir, Call FsReadFile,
                               Call GitStatus,
                               Call (FsWriteFile (JArray (entries
                                 @ [operation_built env options (st_current st)]))),
                               ConsoleWarn ''Warning: Could not queue sync operation'']\<rparr>)
                        | Inr u' \<Rightarrow>
                            (Inr (), w\<lparr>trace := trace w @ [Call FsMkdir, Call FsReadFile,
                               Call GitStatus,
                               Call (FsWriteFile (JArray (entries
                                 @ [operation_built env options (st_current st)]))),
                               ConsoleLog ''Sync operation queued'',
                               ConsoleLog ''Run "easygit sync --process-queue" when online to execute queued operations''],
                               queueFile := Some (JSONText (JArray (entries
                                 @ [operation_built env options (st_current st)])))\<rparr>))))))\<close>
  by (cases "mkdir_result env"; cases "isInitialized env"; cases "status_answer env w";
      cases "existing_queue env w"; cases "writeFile_result env")
     (simp_all add: queueSyncOperation_def fs_mkdir_def fs_writeFile_def queue_push_def
        read_queue_run getCurrentBranch_run operation_built_def io_defs)


text \<open>
  The claim C9 as stated fails when the queue file exists and cannot be read: the inner
  \<^verbatim>\<open>catch\<close> swallows the error, the queue restarts empty, and the write replaces the
  stored entry by the new one, with no warning.
\<close>

theorem queueSyncOperation_overwrites_unreadable:
  "queueFile stored_world = Some (JSONText (JArray [stored_entry]))
   \<and> readFile_error unreadable_env
       = Some (Error ''EACCES: permission denied, open sync-queue.json'')
   \<and> fst (queueSyncOperation unreadable_env plain_options stored_world) = Inr ()
   \<and> warnings_of (queueSyncOperation unreadable_env plain_options) stored_world = []
   \<and> queueFile (snd (queueSyncOperation unreadable_env plain_options stored_world))
       = Some (JSONText (JArray [operation_built unreadable_env plain_options ''main'']))
   \<and> q_branch stored_entry \<noteq> q_branch (operation_built unreadable_env plain_options ''main'')"
  by (simp add: queueSyncOperation_run unreadable_env_def stored_world_def stored_entry_def
        example_defs status_answer_def existing_queue_def operation_built_def
        warnings_of_def events_of_def)

text \<open>
  C9, amended. \<^verbatim>\<open>queueSyncOperation\<close> always returns normally. When the directory is
  made, the current branch is found and the write succeeds: if the queue file was read
  and held an array, the file afterwards holds the prior entries, unchanged and in
  their order, followed by the new entry; if the file could not be read, was absent or
  did not parse, it holds the new entry alone; in both cases without a warning. When
  making the directory or finding the current branch fails, or the file holds a value
  that is not an array, the one warning is written, nothing is written to the file and
  the file is unchanged; when the write fails the one warning is written.
\<close>

theorem queueSyncOperation_appends:
  "fst (queueSyncOperation env options w) = Inr ()
   \<and> (mkdir_result env = Inr () \<and> isInitialized env \<and> status_answer env w = Inr st
        \<and> writeFile_result env = Inr () \<longrightarrow>
        (readFile_error env = None \<and> queueFile w = Some (JSONText (JArray entries)) \<longrightarrow>
           queueFile (snd (queueSyncOperation env options w))
             = Some (JSONText (JArray (entries @ [operation_built env options (st_current st)])))
           \<and> warnings_of (queueSyncOperation env options) w = [])
        \<and> (readFile_error env \<noteq> None \<or> queueFile w = None \<or> queueFile w = Some NotJSON \<longrightarrow>
           queueFile (snd (queueSyncOperation env options w))
             = Some (JSONText (JArray [operation_built env options (st_current st)]))
           \<and> warnings_of (queueSyncOperation env options) w = []))
   \<and> (mkdir_result env = Inl e1 \<or> \<not> isInitialized env \<or> status_answer env w = Inl e2
        \<or> (readFile_error env = None \<and> queueFile w = Some (JSONText JNotArray)) \<longrightarrow>
        warnings_of (queueSyncOperation env options) w
          = [''Warning: Could not queue sync operation'']
        \<and> filter is_write (calls_of (queueSyncOperation env options) w) = []
        \<and> queueFile (snd (queueSyncOperation env options w)) = queueFile w)
   \<and> (writeFile_result env = Inl e3 \<longrightarrow>
        warnings_of (queueSyncOperation env options) w
          = [''Warning: Could not queue sync operation''])"
proof -
  have returns: "fst (queueSyncOperation env options w) = Inr ()"
    by (simp add: queueSyncOperation_run split: sum.split json.split)
  have appended: "queueFile (snd (queueSyncOperation env options w))
             = Some (JSONText (JArray (entries @ [operation_built env options (st_current st)])))
           \<and> warnings_of (queueSyncOperation env options) w = []"
    if "mkdir_result env = Inr ()" "isInitialized env" "status_answer env w = Inr st"
       "writeFile_result env = Inr ()" "readFile_error env = None"
       "queueFile w = Some (JSONText (JArray entries))"
    using that
    by (simp add: queueSyncOperation_run existing_queue_def warnings_of_def events_of_def)
  have restarted: "queueFile (snd (queueSyncOperation env options w))
             = Some (JSONText (JArray [operation_built env options (st_current st)]))
           \<and> warnings_of (queueSyncOperation env options) w = []"
    if "mkdir_result env = Inr ()" "isInitialized env" "status_answer env w = Inr st"
       "writeFile_result env = Inr ()"
       "readFile_error env \<noteq> None \<or> queueFile w = None \<or> queueFile w = Some NotJSON"
  proof -
    from that(5) have "existing_queue env w = JArray []"
      by (auto simp: existing_queue_def split: option.split)
    with that(1-4) show ?thesis
      by (simp add: queueSyncOperation_run warnings_of_def events_of_def)
  qed
  have early: "warnings_of (queueSyncOperation env options) w
          = [''Warning: Could not queue sync operation'']
        \<and> filter is_write (calls_of (queueSyncOperation env options) w) = []
        \<and> queueFile (snd (queueSyncOperation env options w)) = queueFile w"
    if "mkdir_result env = Inl e1 \<or> \<not> isInitialized env \<or> status_answer env w = Inl e2
        \<or> (readFile_error env = None \<and> queueFile w = Some (JSONText JNotArray))"
  proof -
    from that consider "mkdir_result env = Inl e1" | "\<not> isInitialized env"
      | "status_answer env w = Inl e2" | "existing_queue env w = JNotArray"
      by (auto simp: existing_queue_def)
    then show ?thesis
      by cases
         (simp_all add: queueSyncOperation_run warnings_of_def calls_of_def events_of_def
            split: sum.split)
  qed
  have late: "warnings_of (queueSyncOperation env options) w
          = [''Warning: Could not queue sync operation'']"
    if "writeFile_result env = Inl e3"
    using that
    by (simp add: queueSyncOperation_run warnings_of_def events_of_def
          split: sum.split json.split)
  show ?thesis
    using returns appended restarted early late by blast
qed

theorem queueSyncOperation_appends_witness:
  "mkdir_result quiet_env = Inr () \<and> isInitialized quiet_env
   \<and> status_answer quiet_env stored_world = Inr clean_status
   \<and> writeFile_result quiet_env = Inr () \<and> readFile_error quiet_env = None
   \<and> queueFile stored_world = Some (JSONText (JArray [stored_entry]))
   \<and> fst (queueSyncOperation quiet_env plain_options stored_world) = Inr ()
   \<and> queueFile (snd (queueSyncOperation quiet_env plain_options stored_world))
       = Some (JSONText (JArray
           ([stored_entry] @ [operation_built quiet_env plain_options (st_current clean_status)])))
   \<and> warnings_of (queueSyncOperation quiet_env plain_options) stored_world = []"
  using queueSyncOperation_appends
          [of quiet_env plain_options stored_world clean_status "[stored_entry]"]
  by (simp add: stored_world_def status_answer_def start_world_def quiet_env_def)

subsection \<open>The probe of connectivity\<close>

text \<open>
  C3: what the code does. When the remote is configured and \<^verbatim>\<open>git ls-remote\<close> fails
  with one of the three network messages, \<^verbatim>\<open>checkNetworkConnectivity\<close> prints its two
  lines and then throws a ReferenceError, because the argument \<^verbatim>\<open>options\<close> of the call
  at line 90 is not in scope; \<^verbatim>\<open>queueSyncOperation\<close> is not entered, nothing is written
  and the queue file is unchanged.
\<close>

theorem checkNetworkConnectivity_network_failure:
  assumes "isInitialized env" and "remote_names env = Inr remotes" and "remote \<in> set remotes"
    and "raw_result env = Inl e"
    and "str_includes (message e) ''Could not resolve hostname''
         \<or> str_includes (message e) ''Connection refused''
         \<or> str_includes (message e) ''Network is unreachable''"
  shows "fst (checkNetworkConnectivity env remote w)
           = Inl (ReferenceError ''options is not defined'')
       \<and> calls_of (checkNetworkConnectivity env remote) w
           = [GitGetRemotes, GitRaw [''ls-remote'', ''--heads'', remote]]
       \<and> queueFile (snd (checkNetworkConnectivity env remote w)) = queueFile w"
proof -
  from assms(3) have found: "find (\<lambda>r. r = remote) remotes \<noteq> None"
    by (simp add: find_None_iff)
  show ?thesis
    unfolding checkNetworkConnectivity_def options_at_line_90_def io_bind_throw
    using assms(1,2,4,5) found
    by (simp add: getRemotes_def io_defs calls_of_def events_of_def del: find_None_iff)
qed

theorem checkNetworkConnectivity_network_failure_witness:
  "isInitialized offline_env \<and> remote_names offline_env = Inr [''origin'']
   \<and> ''origin'' \<in> set [''origin'']
   \<and> raw_result offline_env
       = Inl (Error ''ssh: Could not resolve hostname github.com: Name or service not known'')
   \<and> str_includes
        (message (Error ''ssh: Could not resolve hostname github.com: Name or service not known''))
        ''Could not resolve hostname''
   \<and> fst (checkNetworkConnectivity offline_env ''origin'' start_world)
       = Inl (ReferenceError ''options is not defined'')
   \<and> fst (execute offline_env plain_options start_world)
       = Inl (ReferenceError ''options is not defined'')
   \<and> calls_of (execute offline_env plain_options) start_world
       = [GitStatus, GitGetRemotes, GitRaw [''ls-remote'', ''--heads'', ''origin'']]
   \<and> queueFile (snd (execute offline_env plain_options start_world)) = None"
  using checkNetworkConnectivity_network_failure
          [of offline_env "[''origin'']" "''origin''"
              "Error ''ssh: Could not resolve hostname github.com: Name or service not known''"
              start_world]
  by (simp add: offline_env_def example_defs execute_defs repository_defs observe_defs io_defs)

subsection \<open>The stash line of the dry run\<close>

text \<open>
  C6: what the code does. For a dirty working tree with the classification ahead, the
  dry-run report ends with the two lines that announce a stash and its restoration,
  while \<^verbatim>\<open>executeSyncStrategy\<close> for the same branch state makes no stash call.
\<close>

theorem showDryRun_announces_stash_when_ahead:
  assumes "bs_hasUncommittedChanges bs" and "bs_status bs = Ahead"
  shows "drop 10 (logs_of (showDryRun env bs options) w)
           = [''  * Stash uncommitted changes before sync'',
              ''  * Restore stashed changes after sync'']
       \<and> filter is_stash (calls_of (executeSyncStrategy env bs options) w) = []"
proof -
  have report: "drop 10 (logs_of (showDryRun env bs options) w)
           = [''  * Stash uncommitted changes before sync'',
              ''  * Restore stashed changes after sync'']"
    using assms by (simp add: showDryRun_def io_defs logs_of_def events_of_def)
  obtain t where t: "trace (snd (bracketed_step env bs options w)) = trace w @ t"
      "list_all step_event t"
    using bracketed_step_run [of env bs options w] by blast
  have "\<not> (bs_hasUncommittedChanges bs \<and> bs_status bs \<noteq> Ahead)"
    using assms(2) by simp
  then have "calls_of (executeSyncStrategy env bs options) w = calls t"
    using t(1) by (simp add: executeSyncStrategy_unstashed calls_of_def events_of_def)
  with step_events_no_stash [OF t(2)] report show ?thesis by simp
qed

theorem showDryRun_announces_stash_when_ahead_witness:
  "bs_hasUncommittedChanges (main_state 1 0 True) \<and> bs_status (main_state 1 0 True) = Ahead
   \<and> logs_of (showDryRun quiet_env (main_state 1 0 True) plain_options) start_world
       = [[CHR 0x0A] @ ''Dry run - showing what would be executed:'' @ [CHR 0x0A],
          ''Repository State:'', ''  Current branch: main'', ''  Remote: origin'',
          ''  Status: ahead'', ''  Ahead: 1 commits'', ''  Behind: 0 commits'',
          ''  Uncommitted changes: Yes'', [CHR 0x0A] @ ''Planned Actions:'',
          ''  * Push 1 commits to origin/main'',
          ''  * Stash uncommitted changes before sync'',
          ''  * Restore stashed changes after sync'']
   \<and> calls_of (executeSyncStrategy quiet_env (main_state 1 0 True) plain_options) start_world
       = [GitPush [''origin'', ''main'']]"
  using showDryRun_announces_stash_when_ahead
          [of "main_state 1 0 True" quiet_env plain_options start_world]
  by (simp add: example_defs execute_defs handler_defs repository_defs observe_defs io_defs
        numberToString_def natToString.simps)

subsection \<open>The label of the stash\<close>

text \<open>
  C8: what the code does. Whenever \<^verbatim>\<open>executeSyncStrategy\<close> stashes, the stash call is
  \<^verbatim>\<open>git stash push -m easygit-sync-auto-stash\<close>: any two invocations that stash use
  the same label, whatever their clocks, branch states and options.
\<close>

theorem stash_label_is_constant:
  assumes "isInitialized env1" and "bs_hasUncommittedChanges bs1" and "bs_status bs1 \<noteq> Ahead"
    and "isInitialized env2" and "bs_hasUncommittedChanges bs2" and "bs_status bs2 \<noteq> Ahead"
  shows "take 1 (calls_of (executeSyncStrategy env1 bs1 options1) w1)
           = [GitStash [''push'', ''-m'', ''easygit-sync-auto-stash'']]
       \<and> take 1 (calls_of (executeSyncStrategy env2 bs2 options2) w2)
           = take 1 (calls_of (executeSyncStrategy env1 bs1 options1) w1)"
proof -
  have first: "take 1 (calls_of (executeSyncStrategy env bs options) w)
                 = [GitStash [''push'', ''-m'', ''easygit-sync-auto-stash'']]"
    if "isInitialized env" "bs_hasUncommittedChanges bs" "bs_status bs \<noteq> Ahead"
    for env bs options w
  proof (cases "stash_push_result env")
    case (Inl e)
    with that show ?thesis
      by (simp add: executeSyncStrategy_def stash_def io_defs calls_of_def events_of_def)
  next
    case (Inr u)
    with that executeSyncStrategy_stashed [of bs env options w]
    show ?thesis by (auto simp: calls_of_def)
  qed
  from first [OF assms(1-3)] first [OF assms(4-6)] show ?thesis by simp
qed

theorem stash_label_is_constant_witness:
  "isInitialized quiet_env \<and> isInitialized later_env
   \<and> bs_hasUncommittedChanges (main_state 0 2 True) \<and> bs_status (main_state 0 2 True) \<noteq> Ahead
   \<and> bs_hasUncommittedChanges (main_state 2 3 True) \<and> bs_status (main_state 2 3 True) \<noteq> Ahead
   \<and> date_now quiet_env \<noteq> date_now later_env
   \<and> take 1 (calls_of (executeSyncStrategy quiet_env (main_state 0 2 True) plain_options)
               start_world)
       = [GitStash [''push'', ''-m'', ''easygit-sync-auto-stash'']]
   \<and> take 1 (calls_of (executeSyncStrategy later_env (main_state 2 3 True) plain_options)
               start_world)
       = [GitStash [''push'', ''-m'', ''easygit-sync-auto-stash'']]"
  using stash_label_is_constant
          [of quiet_env "main_state 0 2 True" later_env "main_state 2 3 True"
              plain_options start_world plain_options start_world]
  by (simp add: later_env_def example_defs)

end
